theory Spec2Isabelle
  imports Complex_Main "HOL-Library.Multiset" "HOL-Library.Product_Lexorder"
begin

section \<open>Values and errors\<close>

text \<open>
  The exceptions the pipeline can meet, as values.  A function that can raise returns
  \<open>error + 'a\<close>, with \<open>Inl\<close> for the exception.
\<close>

datatype error =
    ValueError
  | TypeError
  | KeyError
  | AttributeError
  | TransportError
  | RemoteError

text \<open>
  A float of a numeric column is a finite number or missing: \<open>None\<close> is NaN.  Finite
  numbers are exact reals (rounding is not modelled).  A computed score can in addition
  be infinite, so the result of a division has its own type.
\<close>

type_synonym series = "real option list"

datatype score = Fin real | NaN | PInf | NInf

definition score_of :: "real option \<Rightarrow> score" where
  "score_of v = (case v of None \<Rightarrow> NaN | Some x \<Rightarrow> Fin x)"

text \<open>Float subtraction and division on finite-or-missing operands; \<open>x / 0\<close> follows IEEE 754.\<close>

definition fsub :: "real option \<Rightarrow> real option \<Rightarrow> real option" where
  "fsub a b = (case (a, b) of (Some x, Some y) \<Rightarrow> Some (x - y) | _ \<Rightarrow> None)"

definition fdiv :: "real option \<Rightarrow> real option \<Rightarrow> score" where
  "fdiv a b =
     (case (a, b) of
        (Some x, Some y) \<Rightarrow>
          (if y \<noteq> 0 then Fin (x / y)
           else if x = 0 then NaN
           else if 0 < x then PInf
           else NInf)
      | _ \<Rightarrow> NaN)"

section \<open>Anomaly scorer: \<open>rolling_anomaly\<close>\<close>

text \<open>
  \<^verbatim>\<open>s.rolling(window, min_periods=m)\<close> checks its arguments when the window object is
  built: a negative window and \<open>min_periods > window\<close> both raise \<^verbatim>\<open>ValueError\<close>.
\<close>

definition rolling_validate :: "int \<Rightarrow> int \<Rightarrow> error + unit" where
  "rolling_validate window min_periods =
     (if window < 0 then Inl ValueError
      else if min_periods < 0 then Inl ValueError
      else if min_periods > window then Inl ValueError
      else Inr ())"

text \<open>The trailing window at position \<open>i\<close>: the samples \<open>s[i-W+1 .. i]\<close>, cut at the start.\<close>

definition trailing :: "nat \<Rightarrow> 'a list \<Rightarrow> nat \<Rightarrow> 'a list" where
  "trailing w s i = drop (Suc i - w) (take (Suc i) s)"

definition valid :: "real option list \<Rightarrow> real list" where
  "valid xs = [x. Some x \<leftarrow> xs]"

definition mean :: "real list \<Rightarrow> real" where
  "mean xs = sum_list xs / real (length xs)"

text \<open>
  Sample variance (\<open>ddof = 1\<close>), the default of \<^verbatim>\<open>Rolling.std\<close>, as the exact value.
  pandas updates a floating-point sum as the window slides, so what it returns is this
  value up to rounding; in particular it need not be exactly 0 where this one is.  What
  is proved below of the scores is which positions are missing, not their values.
\<close>

definition var1 :: "real list \<Rightarrow> real" where
  "var1 xs = (\<Sum>x\<leftarrow>xs. (x - mean xs)\<^sup>2) / (real (length xs) - 1)"

definition window_mean :: "nat \<Rightarrow> real option list \<Rightarrow> real option" where
  "window_mean minp win =
     (let xs = valid win in if minp \<le> length xs \<and> 0 < length xs then Some (mean xs) else None)"

definition window_std :: "nat \<Rightarrow> real option list \<Rightarrow> real option" where
  "window_std minp win =
     (let xs = valid win in if minp \<le> length xs \<and> 1 < length xs then Some (sqrt (var1 xs)) else None)"

definition rolling_mean :: "int \<Rightarrow> int \<Rightarrow> series \<Rightarrow> error + series" where
  "rolling_mean window minp s =
     (case rolling_validate window minp of
        Inl e \<Rightarrow> Inl e
      | Inr _ \<Rightarrow> Inr (map (\<lambda>i. window_mean (nat minp) (trailing (nat window) s i)) [0..<length s]))"

definition rolling_std :: "int \<Rightarrow> int \<Rightarrow> series \<Rightarrow> error + series" where
  "rolling_std window minp s =
     (case rolling_validate window minp of
        Inl e \<Rightarrow> Inl e
      | Inr _ \<Rightarrow> Inr (map (\<lambda>i. window_std (nat minp) (trailing (nat window) s i)) [0..<length s]))"

text \<open>
  \<^verbatim>\<open>
  def rolling_anomaly(s, window=24):
      if s is None or s.empty:
          return s
      mu = s.rolling(window, min_periods=max(4, window//4)).mean()
      sd = s.rolling(window, min_periods=max(4, window//4)).std()
      return (s - mu) / sd
  \<close>
  The argument is \<open>None\<close> or a series; \<open>//\<close> is floor division, as \<open>div\<close> on \<open>int\<close>.
\<close>

definition rolling_anomaly :: "series option \<Rightarrow> int \<Rightarrow> error + score list option" where
  "rolling_anomaly s window =
     (case s of
        None \<Rightarrow> Inr None
      | Some xs \<Rightarrow>
          if xs = [] then Inr (Some (map score_of xs))
          else
            (case rolling_mean window (max 4 (window div 4)) xs of
               Inl e \<Rightarrow> Inl e
             | Inr mu \<Rightarrow>
                 (case rolling_std window (max 4 (window div 4)) xs of
                    Inl e \<Rightarrow> Inl e
                  | Inr sd \<Rightarrow> Inr (Some (map2 fdiv (map2 fsub xs mu) sd)))))"

section \<open>Tables\<close>

text \<open>
  A cell is a scalar of a JSON array, of an object column or of a CSV field: missing, a
  number, a timestamp (an instant in nanoseconds since the epoch, aware of UTC or naive),
  or any other text.
\<close>

datatype tz = Naive | UTC

datatype cell = CNull | CNum real | CStr string | CTime tz int

text \<open>
  A column has one dtype: float (NaN is \<open>None\<close>), object, or datetime (NaT is \<open>None\<close>)
  with or without a timezone.  An index is the default positional one or a column of
  labels.
\<close>

datatype column =
    NumCol "real option list"
  | ObjCol "cell list"
  | DtCol tz "int option list"

datatype index = RangeIndex nat | Index column

record frame =
  index :: index
  index_name :: "string option"
  columns :: "(string \<times> column) list"

fun col_len :: "column \<Rightarrow> nat" where
  "col_len (NumCol xs) = length xs"
| "col_len (ObjCol xs) = length xs"
| "col_len (DtCol z xs) = length xs"

fun index_len :: "index \<Rightarrow> nat" where
  "index_len (RangeIndex n) = n"
| "index_len (Index c) = col_len c"

text \<open>\<^verbatim>\<open>pd.DataFrame()\<close> and \<^verbatim>\<open>df.empty\<close> (no rows or no columns).\<close>

definition empty_frame :: frame where
  "empty_frame = \<lparr>index = RangeIndex 0, index_name = None, columns = []\<rparr>"

definition df_empty :: "frame \<Rightarrow> bool" where
  "df_empty df \<longleftrightarrow> index_len (index df) = 0 \<or> columns df = []"

definition cell_of :: "real option \<Rightarrow> cell" where
  "cell_of v = (case v of None \<Rightarrow> CNull | Some x \<Rightarrow> CNum x)"

definition stamp_of :: "tz \<Rightarrow> int option \<Rightarrow> cell" where
  "stamp_of z t = (case t of None \<Rightarrow> CNull | Some v \<Rightarrow> CTime z v)"

fun col_cells :: "column \<Rightarrow> cell list" where
  "col_cells (NumCol xs) = map cell_of xs"
| "col_cells (ObjCol xs) = xs"
| "col_cells (DtCol z ts) = map (stamp_of z) ts"

section \<open>Parser and normalizer: \<open>hourly_to_frame\<close>\<close>

text \<open>
  The hourly block of a payload is a dict, in insertion order, from names to arrays.
  \<open>hourly\<close> is \<open>None\<close> when the payload has no such key.
\<close>

type_synonym hourly_block = "(string \<times> cell list) list"

datatype payload = Payload (hourly: "hourly_block option")

text \<open>
  Python does not check the annotation \<^verbatim>\<open>js: dict\<close>: the function also runs on a
  frame, whose \<^verbatim>\<open>get\<close> returns the column of that name or the default.
\<close>

datatype arg = Js payload | Df frame

datatype hourly_value = HDict hourly_block | HSeries column

definition get_hourly :: "arg \<Rightarrow> hourly_value" where
  "get_hourly a =
     (case a of
        Js p \<Rightarrow> (case hourly p of None \<Rightarrow> HDict [] | Some h \<Rightarrow> HDict h)
      | Df f \<Rightarrow> (case map_of (columns f) ''hourly'' of None \<Rightarrow> HDict [] | Some c \<Rightarrow> HSeries c))"

text \<open>
  \<^verbatim>\<open>pd.DataFrame(hourly)\<close>: arrays of different lengths raise \<^verbatim>\<open>ValueError\<close>.  The
  columns keep the raw cells; the dtype is fixed by the coercions that follow.
\<close>

definition DataFrame :: "hourly_block \<Rightarrow> error + frame" where
  "DataFrame d =
     (case d of
        [] \<Rightarrow> Inr empty_frame
      | (k, xs) # rest \<Rightarrow>
          if list_all (\<lambda>kv. length (snd kv) = length xs) rest
          then Inr \<lparr>index = RangeIndex (length xs), index_name = None,
                    columns = map (\<lambda>kv. (fst kv, ObjCol (snd kv))) d\<rparr>
          else Inl ValueError)"

text \<open>
  \<^verbatim>\<open>pd.to_datetime(col, utc=True, errors="coerce")\<close>: each cell becomes an instant or
  NaT.  Which texts parse is pandas' business: the parameter \<open>dt\<close> is what the call makes
  of one cell.  pandas reads the texts of a column in the format of the first, so \<open>dt\<close>
  stands for the cells of one such column; the statements below hold for every \<open>dt\<close>.
\<close>

definition to_datetime_utc :: "(cell \<Rightarrow> int option) \<Rightarrow> column \<Rightarrow> int option list" where
  "to_datetime_utc dt c = map dt (col_cells c)"

text \<open>
  \<^verbatim>\<open>pd.to_numeric(col, errors="coerce")\<close>: a number stays, a text becomes the number it
  parses to (the parameter \<open>nm\<close>) or NaN, anything else becomes NaN.
\<close>

fun to_numeric_cell :: "(string \<Rightarrow> real option) \<Rightarrow> cell \<Rightarrow> real option" where
  "to_numeric_cell nm CNull = None"
| "to_numeric_cell nm (CNum x) = Some x"
| "to_numeric_cell nm (CStr s) = nm s"
| "to_numeric_cell nm (CTime z t) = None"

definition to_numeric :: "(string \<Rightarrow> real option) \<Rightarrow> column \<Rightarrow> column" where
  "to_numeric nm c =
     (case c of
        ObjCol xs \<Rightarrow> NumCol (map (to_numeric_cell nm) xs)
      | NumCol xs \<Rightarrow> NumCol xs
      | DtCol z ts \<Rightarrow> NumCol (map (map_option real_of_int) ts))"

definition set_index :: "string \<Rightarrow> column \<Rightarrow> frame \<Rightarrow> frame" where
  "set_index name c df =
     df\<lparr>index := Index c, index_name := Some name,
        columns := filter (\<lambda>kv. fst kv \<noteq> name) (columns df)\<rparr>"

text \<open>
  \<^verbatim>\<open>sort_index()\<close> orders the rows by index label, ascending, NaT last; no row is
  dropped.  pandas sorts with quicksort, which leaves open the order among rows of equal
  label; \<open>sort_key\<close> here keeps them in their order.  What is proved below of a sorted
  frame is that its index is ascending and which rows it holds, not the order among
  rows of equal label.
\<close>

definition nat_key :: "int option \<Rightarrow> nat \<times> int" where
  "nat_key t = (case t of None \<Rightarrow> (1, 0) | Some v \<Rightarrow> (0, v))"

definition by_key :: "int option list \<Rightarrow> 'a list \<Rightarrow> 'a list" where
  "by_key ts xs = map snd (sort_key (\<lambda>p. nat_key (fst p)) (zip ts xs))"

fun reorder :: "int option list \<Rightarrow> column \<Rightarrow> column" where
  "reorder ts (NumCol xs) = NumCol (by_key ts xs)"
| "reorder ts (ObjCol xs) = ObjCol (by_key ts xs)"
| "reorder ts (DtCol z xs) = DtCol z (by_key ts xs)"

definition sort_index :: "frame \<Rightarrow> frame" where
  "sort_index df =
     (case index df of
        Index (DtCol z ts) \<Rightarrow>
          df\<lparr>index := Index (DtCol z (sort_key nat_key ts)),
             columns := map (\<lambda>kv. (fst kv, reorder ts (snd kv))) (columns df)\<rparr>
      | _ \<Rightarrow> df)"

text \<open>
  \<^verbatim>\<open>
  def hourly_to_frame(js):
      hourly = js.get("hourly", {})
      if not hourly:
          return pd.DataFrame()
      df = pd.DataFrame(hourly)
      if "time" in df.columns:
          df["time"] = pd.to_datetime(df["time"], utc=True, errors="coerce")
          df = df.set_index("time").sort_index()
      for c in df.columns:
          df[c] = pd.to_numeric(df[c], errors="coerce")
      return df
  \<close>
  \<^verbatim>\<open>not hourly\<close> on a column (a Series) raises \<^verbatim>\<open>ValueError\<close>: its truth value is
  ambiguous.  \<open>coerce_columns\<close> is the final loop.
\<close>

definition coerce_columns :: "(string \<Rightarrow> real option) \<Rightarrow> frame \<Rightarrow> frame" where
  "coerce_columns nm df = df\<lparr>columns := map (\<lambda>kv. (fst kv, to_numeric nm (snd kv))) (columns df)\<rparr>"

definition hourly_to_frame ::
    "(cell \<Rightarrow> int option) \<Rightarrow> (string \<Rightarrow> real option) \<Rightarrow> arg \<Rightarrow> error + frame" where
  "hourly_to_frame dt nm js =
     (case get_hourly js of
        HSeries c \<Rightarrow> Inl ValueError
      | HDict h \<Rightarrow>
          if h = [] then Inr empty_frame
          else
            (case DataFrame h of
               Inl e \<Rightarrow> Inl e
             | Inr df \<Rightarrow>
                 let df1 =
                   (case map_of (columns df) ''time'' of
                      Some c \<Rightarrow> sort_index (set_index ''time'' (DtCol UTC (to_datetime_utc dt c)) df)
                    | None \<Rightarrow> df)
                 in Inr (coerce_columns nm df1)))"

subsection \<open>The provider's formats\<close>

text \<open>
  Instances of the two parameters for the texts the provider sends: timestamps
  \<^verbatim>\<open>YYYY-MM-DDTHH:MM\<close> in UTC, and decimal numbers.
\<close>

definition digit :: "char \<Rightarrow> nat option" where
  "digit c = (let n = (of_char c :: nat) in if 48 \<le> n \<and> n \<le> 57 then Some (n - 48) else None)"

definition number :: "string \<Rightarrow> nat option" where
  "number s =
     (if s = [] then None
      else fold (\<lambda>c acc. case (acc, digit c) of (Some a, Some d) \<Rightarrow> Some (10 * a + d) | _ \<Rightarrow> None)
             s (Some 0))"

definition leap_year :: "nat \<Rightarrow> bool" where
  "leap_year y \<longleftrightarrow> (y mod 4 = 0 \<and> y mod 100 \<noteq> 0) \<or> y mod 400 = 0"

definition days_in_month :: "nat \<Rightarrow> nat \<Rightarrow> nat" where
  "days_in_month y m =
     (if m = 2 then (if leap_year y then 29 else 28)
      else if m = 4 \<or> m = 6 \<or> m = 9 \<or> m = 11 then 30 else 31)"

definition days_from_civil :: "nat \<Rightarrow> nat \<Rightarrow> nat \<Rightarrow> int" where
  "days_from_civil y m d =
     (let y1 = (if m \<le> 2 then int y - 1 else int y);
          era = y1 div 400;
          yoe = y1 - era * 400;
          mp = (if 2 < m then int m - 3 else int m + 9);
          doy = (153 * mp + 2) div 5 + int d - 1;
          doe = yoe * 365 + yoe div 4 - yoe div 100 + doy
      in era * 146097 + doe - 719468)"

definition iso_minute :: "string \<Rightarrow> int option" where
  "iso_minute s =
     (if length s = 16 \<and> s ! 4 = CHR ''-'' \<and> s ! 7 = CHR ''-'' \<and> s ! 10 = CHR ''T''
         \<and> s ! 13 = CHR '':''
      then
        (case (number (take 4 s), number (take 2 (drop 5 s)), number (take 2 (drop 8 s)),
               number (take 2 (drop 11 s)), number (take 2 (drop 14 s))) of
           (Some y, Some m, Some d, Some hh, Some mi) \<Rightarrow>
             if 1 \<le> m \<and> m \<le> 12 \<and> 1 \<le> d \<and> d \<le> days_in_month y m \<and> hh < 24 \<and> mi < 60
             then Some (((days_from_civil y m d * 24 + int hh) * 60 + int mi) * 60 * 10 ^ 9)
             else None
         | _ \<Rightarrow> None)
      else None)"

fun iso_cell :: "cell \<Rightarrow> int option" where
  "iso_cell (CStr s) = iso_minute s"
| "iso_cell (CTime z t) = Some t"
| "iso_cell (CNum x) = Some \<lfloor>x\<rfloor>"
| "iso_cell CNull = None"

definition decimal :: "string \<Rightarrow> real option" where
  "decimal s =
     (let neg = (s \<noteq> [] \<and> hd s = CHR ''-'');
          body = (if neg then tl s else s);
          ip = takeWhile (\<lambda>c. c \<noteq> CHR ''.'') body;
          rest = dropWhile (\<lambda>c. c \<noteq> CHR ''.'') body;
          sg = (if neg then - 1 else 1)
      in case number ip of
           None \<Rightarrow> None
         | Some a \<Rightarrow>
             (case rest of
                [] \<Rightarrow> Some (sg * real a)
              | dot # fp \<Rightarrow>
                  (case number fp of
                     None \<Rightarrow> None
                   | Some b \<Rightarrow> Some (sg * (real a + real b / 10 ^ length fp)))))"

section \<open>Cache store: \<open>save_cache\<close> and \<open>load_cache\<close>\<close>

text \<open>
  A CSV file is taken at the level of its fields: the table by column, each header name
  with the fields below it, and each field the cell its text denotes.  Of the text itself
  the format of a timestamp is kept, which decides whether \<^verbatim>\<open>read_csv\<close> parses the
  column; the digits of a float are not (a number is read back as the number printed, that
  is, up to the rounding of the float parser).  The file store maps a path to its file.
\<close>

type_synonym csv = "(string \<times> cell list) list"

type_synonym files = "string \<rightharpoonup> csv"

fun show_nat :: "nat \<Rightarrow> string" where
  "show_nat n =
     (if n < 10 then [char_of (48 + n)] else show_nat (n div 10) @ [char_of (48 + n mod 10)])"

definition round_half_even :: "real \<Rightarrow> int" where
  "round_half_even y =
     (let f = \<lfloor>y\<rfloor>; r = y - of_int f
      in if r < 1 / 2 then f else if 1 / 2 < r then f + 1 else if even f then f else f + 1)"

text \<open>\<^verbatim>\<open>f"{x:.4f}"\<close>: sign, integer part, four decimals.\<close>

definition fmt4 :: "real \<Rightarrow> string" where
  "fmt4 x =
     (let q = nat (round_half_even (\<bar>x\<bar> * 10000));
          frac = show_nat (q mod 10000)
      in (if x < 0 then [CHR ''-''] else []) @ show_nat (q div 10000) @ [CHR ''.'']
           @ replicate (4 - length frac) CHR ''0'' @ frac)"

definition DATA_DIR :: string where
  "DATA_DIR = ''data''"

definition cache_path :: "real \<Rightarrow> real \<Rightarrow> string" where
  "cache_path lat lon = DATA_DIR @ ''/'' @ ''weather_'' @ fmt4 lat @ ''_'' @ fmt4 lon @ ''.csv''"

text \<open>\<^verbatim>\<open>df.to_csv(path)\<close>: the index first, under its name (empty when it has none).\<close>

fun index_column :: "index \<Rightarrow> column" where
  "index_column (RangeIndex n) = NumCol (map (\<lambda>i. Some (real i)) [0..<n])"
| "index_column (Index c) = c"

definition to_csv :: "frame \<Rightarrow> csv" where
  "to_csv df =
     ((case index_name df of None \<Rightarrow> [] | Some n \<Rightarrow> n), col_cells (index_column (index df)))
       # map (\<lambda>kv. (fst kv, col_cells (snd kv))) (columns df)"

definition save_cache :: "files \<Rightarrow> frame \<Rightarrow> real \<Rightarrow> real \<Rightarrow> files" where
  "save_cache fs df_utc lat lon = fs(cache_path lat lon \<mapsto> to_csv df_utc)"

text \<open>
  \<^verbatim>\<open>pd.read_csv(path, parse_dates=["time"], index_col="time")\<close>.  A header field that
  is empty is named \<^verbatim>\<open>Unnamed: i\<close> after its position.  Without a column \<open>time\<close> the
  call raises \<^verbatim>\<open>ValueError\<close>.  A file with no data row gives an index of dtype object.
  A data column of numbers and empty fields is a float column.
\<close>

definition header_name :: "nat \<Rightarrow> string \<Rightarrow> string" where
  "header_name i n = (if n = [] then ''Unnamed: '' @ show_nat i else n)"

definition read_header :: "csv \<Rightarrow> csv" where
  "read_header file =
     map (\<lambda>p. (header_name (fst p) (fst (snd p)), snd (snd p))) (zip [0..<length file] file)"

definition csv_nrows :: "csv \<Rightarrow> nat" where
  "csv_nrows file = (case file of [] \<Rightarrow> 0 | c # cs \<Rightarrow> length (snd c))"

text \<open>
  The fields of \<open>time\<close> are parsed as timestamps in one format, the format of the first.
  \<^verbatim>\<open>to_csv\<close> prints the timestamps of a naive index in one format, and those of an
  aware index one by one, each with its sub-second part only when that part is not zero:
  an aware timestamp of whole seconds and one with a sub-second part differ in format.
  When some field does not parse in the format of the first, or the fields disagree on
  the offset, the column stays text.
\<close>

definition is_stamp :: "cell \<Rightarrow> bool" where
  "is_stamp c = (case c of CNull \<Rightarrow> True | CTime z t \<Rightarrow> True | _ \<Rightarrow> False)"

definition stamp_value :: "cell \<Rightarrow> int option" where
  "stamp_value c = (case c of CTime z t \<Rightarrow> Some t | _ \<Rightarrow> None)"

definition stamp_zones :: "cell list \<Rightarrow> tz list" where
  "stamp_zones cs = concat (map (\<lambda>c. case c of CTime z t \<Rightarrow> [z] | _ \<Rightarrow> []) cs)"

definition whole_second :: "int \<Rightarrow> bool" where
  "whole_second t \<longleftrightarrow> t mod 10 ^ 9 = 0"

definition aware_formats :: "cell list \<Rightarrow> bool list" where
  "aware_formats cs =
     concat (map (\<lambda>c. case c of CTime z t \<Rightarrow> (if z = UTC then [whole_second t] else []) | _ \<Rightarrow> []) cs)"

definition one_format :: "cell list \<Rightarrow> bool" where
  "one_format cs = (case aware_formats cs of [] \<Rightarrow> True | f # fs \<Rightarrow> list_all (\<lambda>g. g = f) fs)"

definition whole_seconds :: "int option list \<Rightarrow> bool" where
  "whole_seconds ts = list_all (\<lambda>t. case t of None \<Rightarrow> True | Some v \<Rightarrow> whole_second v) ts"

definition parse_dates :: "cell list \<Rightarrow> column" where
  "parse_dates cs =
     (if list_all is_stamp cs \<and> list_all (\<lambda>z. z = Naive) (stamp_zones cs)
        then DtCol Naive (map stamp_value cs)
      else if list_all is_stamp cs \<and> list_all (\<lambda>z. z = UTC) (stamp_zones cs) \<and> one_format cs
        then DtCol UTC (map stamp_value cs)
      else ObjCol cs)"

definition is_float :: "cell \<Rightarrow> bool" where
  "is_float c = (case c of CNull \<Rightarrow> True | CNum x \<Rightarrow> True | _ \<Rightarrow> False)"

definition float_value :: "cell \<Rightarrow> real option" where
  "float_value c = (case c of CNum x \<Rightarrow> Some x | _ \<Rightarrow> None)"

definition infer_column :: "cell list \<Rightarrow> column" where
  "infer_column cs = (if list_all is_float cs then NumCol (map float_value cs) else ObjCol cs)"

fun drop_first :: "string \<Rightarrow> (string \<times> 'a) list \<Rightarrow> (string \<times> 'a) list" where
  "drop_first k [] = []"
| "drop_first k (kv # kvs) = (if fst kv = k then kvs else kv # drop_first k kvs)"

definition read_csv_time :: "csv \<Rightarrow> error + frame" where
  "read_csv_time file =
     (let tbl = read_header file
      in case map_of tbl ''time'' of
           None \<Rightarrow> Inl ValueError
         | Some cs \<Rightarrow>
             if csv_nrows tbl = 0
             then Inr \<lparr>index = Index (ObjCol []), index_name = Some ''time'',
                       columns = map (\<lambda>kv. (fst kv, ObjCol [])) (drop_first ''time'' tbl)\<rparr>
             else Inr \<lparr>index = Index (parse_dates cs), index_name = Some ''time'',
                       columns = map (\<lambda>kv. (fst kv, infer_column (snd kv))) (drop_first ''time'' tbl)\<rparr>)"

text \<open>\<^verbatim>\<open>df.index.tz\<close>: only a datetime index has the attribute.\<close>

definition index_tz :: "index \<Rightarrow> error + tz" where
  "index_tz ix = (case ix of Index (DtCol z ts) \<Rightarrow> Inr z | _ \<Rightarrow> Inl AttributeError)"

definition tz_localize_utc :: "index \<Rightarrow> index" where
  "tz_localize_utc ix = (case ix of Index (DtCol z ts) \<Rightarrow> Index (DtCol UTC ts) | _ \<Rightarrow> ix)"

text \<open>
  \<^verbatim>\<open>
  def load_cache(lat, lon):
      path = cache_path(lat, lon)
      if not os.path.exists(path):
          return pd.DataFrame()
      df = pd.read_csv(path, parse_dates=["time"], index_col="time")
      if df.index.tz is None:
          df.index = df.index.tz_localize("UTC")
      return df
  \<close>
\<close>

definition load_cache :: "files \<Rightarrow> real \<Rightarrow> real \<Rightarrow> error + frame" where
  "load_cache fs lat lon =
     (case fs (cache_path lat lon) of
        None \<Rightarrow> Inr empty_frame
      | Some file \<Rightarrow>
          (case read_csv_time file of
             Inl e \<Rightarrow> Inl e
           | Inr df \<Rightarrow>
               (case index_tz (index df) of
                  Inl e \<Rightarrow> Inl e
                | Inr z \<Rightarrow>
                    if z = Naive then Inr (df\<lparr>index := tz_localize_utc (index df)\<rparr>)
                    else Inr df)))"

section \<open>Pipeline driver: fetch, cache, fall back\<close>

text \<open>
  One run of the script's first block.  The network call is outside the model: its
  result \<open>fetched\<close>, a payload or the exception \<^verbatim>\<open>fetch_hourly_json\<close> raised, is an
  input.  A run ends with a series for the rest of the script, with \<^verbatim>\<open>st.stop()\<close>, or
  with an exception nobody caught; it leaves the file store and the messages shown by
  \<^verbatim>\<open>st.error\<close>.
\<close>

datatype outcome = Continue frame | Stop | Raise error

record run =
  outcome :: outcome
  files_after :: files
  shown :: "error list"

definition fetch_and_save ::
    "(cell \<Rightarrow> int option) \<Rightarrow> (string \<Rightarrow> real option) \<Rightarrow> error + payload \<Rightarrow> files \<Rightarrow> real \<Rightarrow> real
      \<Rightarrow> error + frame \<times> files" where
  "fetch_and_save dt nm fetched fs lat lon =
     (case fetched of
        Inl e \<Rightarrow> Inl e
      | Inr js \<Rightarrow>
          (case hourly_to_frame dt nm (Js js) of
             Inl e \<Rightarrow> Inl e
           | Inr df_utc \<Rightarrow> Inr (df_utc, save_cache fs df_utc lat lon)))"

text \<open>
  \<^verbatim>\<open>
  try:
      js = fetch_hourly_json(lat, lon, days)
      df_utc = hourly_to_frame(js)
      save_cache(df_utc, lat, lon)
  except Exception as e:
      st.error(f"Fetch error: {e}")
      df_utc = load_cache(lat, lon)
      if df_utc.empty:
          st.stop()
  \<close>
  as \<^verbatim>\<open>fetch.py\<close> has it.
\<close>

definition fetch_driver ::
    "(cell \<Rightarrow> int option) \<Rightarrow> (string \<Rightarrow> real option) \<Rightarrow> error + payload \<Rightarrow> files \<Rightarrow> real \<Rightarrow> real
      \<Rightarrow> run" where
  "fetch_driver dt nm fetched fs lat lon =
     (case fetch_and_save dt nm fetched fs lat lon of
        Inr (df_utc, fs') \<Rightarrow> \<lparr>outcome = Continue df_utc, files_after = fs', shown = []\<rparr>
      | Inl e \<Rightarrow>
          (case load_cache fs lat lon of
             Inl e' \<Rightarrow> \<lparr>outcome = Raise e', files_after = fs, shown = [e]\<rparr>
           | Inr df_utc \<Rightarrow>
               if df_empty df_utc then \<lparr>outcome = Stop, files_after = fs, shown = [e]\<rparr>
               else \<lparr>outcome = Continue df_utc, files_after = fs, shown = [e]\<rparr>))"

text \<open>
  \<^verbatim>\<open>app_streamlit.py\<close> has the same block with \<^verbatim>\<open>if df_utc.empty():\<close>.  \<^verbatim>\<open>empty\<close> is
  a property: its value is a \<^verbatim>\<open>bool\<close>, and calling a \<^verbatim>\<open>bool\<close> raises
  \<^verbatim>\<open>TypeError\<close>, inside the handler.
\<close>

definition call_bool :: "bool \<Rightarrow> error + bool" where
  "call_bool b = Inl TypeError"

definition app_driver ::
    "(cell \<Rightarrow> int option) \<Rightarrow> (string \<Rightarrow> real option) \<Rightarrow> error + payload \<Rightarrow> files \<Rightarrow> real \<Rightarrow> real
      \<Rightarrow> run" where
  "app_driver dt nm fetched fs lat lon =
     (case fetch_and_save dt nm fetched fs lat lon of
        Inr (df_utc, fs') \<Rightarrow> \<lparr>outcome = Continue df_utc, files_after = fs', shown = []\<rparr>
      | Inl e \<Rightarrow>
          (case load_cache fs lat lon of
             Inl e' \<Rightarrow> \<lparr>outcome = Raise e', files_after = fs, shown = [e]\<rparr>
           | Inr df_utc \<Rightarrow>
               (case call_bool (df_empty df_utc) of
                  Inl e' \<Rightarrow> \<lparr>outcome = Raise e', files_after = fs, shown = [e]\<rparr>
                | Inr b \<Rightarrow>
                    if b then \<lparr>outcome = Stop, files_after = fs, shown = [e]\<rparr>
                    else \<lparr>outcome = Continue df_utc, files_after = fs, shown = [e]\<rparr>)))"

section \<open>Aggregator: \<open>daily_summary\<close>\<close>

definition ns_per_day :: int where
  "ns_per_day = 86400 * 10 ^ 9"

definition day_of :: "int \<Rightarrow> int" where
  "day_of t = t div ns_per_day"

datatype stat = Mean | Minimum | Maximum | Total

fun stat_name :: "stat \<Rightarrow> string" where
  "stat_name Mean = ''mean''"
| "stat_name Minimum = ''min''"
| "stat_name Maximum = ''max''"
| "stat_name Total = ''sum''"

text \<open>The statistics skip NaN; the sum of no value is 0, the others are then NaN.\<close>

fun apply_stat :: "stat \<Rightarrow> real option list \<Rightarrow> real option" where
  "apply_stat Mean vs = (case valid vs of [] \<Rightarrow> None | x # xs \<Rightarrow> Some (mean (x # xs)))"
| "apply_stat Minimum vs = (case valid vs of [] \<Rightarrow> None | x # xs \<Rightarrow> Some (fold min xs x))"
| "apply_stat Maximum vs = (case valid vs of [] \<Rightarrow> None | x # xs \<Rightarrow> Some (fold max xs x))"
| "apply_stat Total vs = Some (sum_list (valid vs))"

text \<open>The dict given to \<^verbatim>\<open>agg\<close>; a single statistic counts as a list of one.\<close>

definition agg_spec :: "(string \<times> stat list) list" where
  "agg_spec =
     [(''temperature_2m'', [Mean, Minimum, Maximum]),
      (''precipitation'', [Total]),
      (''wind_speed_10m'', [Mean])]"

text \<open>\<^verbatim>\<open>"_".join(col).strip("_")\<close> on a pair (column, statistic).\<close>

definition str_join :: "string \<Rightarrow> string list \<Rightarrow> string" where
  "str_join sep parts = (case parts of [] \<Rightarrow> [] | p # ps \<Rightarrow> p @ concat (map (\<lambda>q. sep @ q) ps))"

definition strip_chars :: "char \<Rightarrow> string \<Rightarrow> string" where
  "strip_chars c s = rev (dropWhile (\<lambda>x. x = c) (rev (dropWhile (\<lambda>x. x = c) s)))"

definition flat_name :: "string \<times> string \<Rightarrow> string" where
  "flat_name col = strip_chars CHR ''_'' (str_join ''_'' [fst col, snd col])"

text \<open>
  \<^verbatim>\<open>resample("D")\<close>: one bin per calendar day from the first to the last day of the
  index, days without rows included; rows under NaT belong to no bin.  With no instant
  at all in the index the call raises \<^verbatim>\<open>AttributeError\<close> in pandas 2 (later versions
  return no rows).
\<close>

definition in_day :: "int option list \<Rightarrow> 'a list \<Rightarrow> int \<Rightarrow> 'a list" where
  "in_day ts vs d = map snd (filter (\<lambda>p. map_option day_of (fst p) = Some d) (zip ts vs))"

definition resample_days :: "int option list \<Rightarrow> error + int list" where
  "resample_days ts =
     (case concat (map (\<lambda>t. case t of None \<Rightarrow> [] | Some v \<Rightarrow> [day_of v]) ts) of
        [] \<Rightarrow> Inl AttributeError
      | d # ds \<Rightarrow> Inr [fold min ds d .. fold max ds d])"

text \<open>
  The statistics of one column of the dict.  The columns are float columns in every
  frame the parser returns.  On a text column a mean raises \<^verbatim>\<open>TypeError\<close>, which is
  what the model returns for every column that is not a float column (a sum alone
  would join the texts).
\<close>

definition agg_column ::
    "int option list \<Rightarrow> int list \<Rightarrow> frame \<Rightarrow> string \<times> stat list \<Rightarrow> error + (string \<times> column) list" where
  "agg_column ts days df sp =
     (case map_of (columns df) (fst sp) of
        None \<Rightarrow> Inl KeyError
      | Some (NumCol vs) \<Rightarrow>
          Inr (map (\<lambda>st. (flat_name (fst sp, stat_name st),
                          NumCol (map (\<lambda>d. apply_stat st (in_day ts vs d)) days))) (snd sp))
      | Some other \<Rightarrow> Inl TypeError)"

fun collect :: "(error + 'a list) list \<Rightarrow> error + 'a list" where
  "collect [] = Inr []"
| "collect (Inl e # rs) = Inl e"
| "collect (Inr xs # rs) = (case collect rs of Inl e \<Rightarrow> Inl e | Inr ys \<Rightarrow> Inr (xs @ ys))"

text \<open>
  \<^verbatim>\<open>
  def daily_summary(df_local_naive):
      if df_local_naive.empty:
          return pd.DataFrame()
      daily = df_local_naive.resample("D").agg({
          "temperature_2m": ["mean", "min", "max"],
          "precipitation": "sum",
          "wind_speed_10m": "mean",
      })
      daily.columns = ["_".join(col).strip("_") for col in daily.columns.to_flat_index()]
      return daily
  \<close>
  \<^verbatim>\<open>resample\<close> needs a datetime index (\<^verbatim>\<open>TypeError\<close> otherwise); \<^verbatim>\<open>agg\<close> raises
  \<^verbatim>\<open>KeyError\<close> when a column of the dict is not in the frame.
\<close>

definition daily_summary :: "frame \<Rightarrow> error + frame" where
  "daily_summary df =
     (if df_empty df then Inr empty_frame
      else
        (case index df of
           Index (DtCol z ts) \<Rightarrow>
             (case resample_days ts of
                Inl e \<Rightarrow> Inl e
              | Inr days \<Rightarrow>
                  if list_ex (\<lambda>sp. map_of (columns df) (fst sp) = None) agg_spec then Inl KeyError
                  else
                    (case collect (map (agg_column ts days df) agg_spec) of
                       Inl e \<Rightarrow> Inl e
                     | Inr cols \<Rightarrow>
                         Inr \<lparr>index = Index (DtCol z (map (\<lambda>d. Some (d * ns_per_day)) days)),
                              index_name = index_name df,
                              columns = cols\<rparr>))
         | _ \<Rightarrow> Inl TypeError))"

section \<open>Display sanitizer: \<open>arrow_safe_df\<close>\<close>

text \<open>
  \<^verbatim>\<open>df.reset_index()\<close> inserts the index as first column, under its name, or
  \<^verbatim>\<open>index\<close> (\<^verbatim>\<open>level_0\<close> when a column \<^verbatim>\<open>index\<close> exists) when it has none.  A column
  of that name already there raises \<^verbatim>\<open>ValueError\<close>.
\<close>

definition index_label :: "frame \<Rightarrow> string" where
  "index_label df =
     (case index_name df of
        Some n \<Rightarrow> n
      | None \<Rightarrow> if ''index'' \<in> set (map fst (columns df)) then ''level_0'' else ''index'')"

definition reset_index :: "frame \<Rightarrow> error + frame" where
  "reset_index df =
     (if index_label df \<in> set (map fst (columns df)) then Inl ValueError
      else Inr \<lparr>index = RangeIndex (index_len (index df)), index_name = None,
                columns = (index_label df, index_column (index df)) # columns df\<rparr>)"

text \<open>
  The first \<^verbatim>\<open>try\<close>: an object column is given to
  \<^verbatim>\<open>pd.to_datetime(col, errors="coerce")\<close>, the parameter \<open>td\<close>, which returns the
  timezone and the instants or raises; the column is replaced when enough values
  parsed.  \<^verbatim>\<open>int(0.8 * n)\<close> is \<open>4 * n div 5\<close>.
\<close>

definition notna :: "'a option list \<Rightarrow> nat" where
  "notna ts = length (filter (\<lambda>t. t \<noteq> None) ts)"

definition promote :: "(cell list \<Rightarrow> error + tz \<times> int option list) \<Rightarrow> column \<Rightarrow> column" where
  "promote td c =
     (case c of
        ObjCol xs \<Rightarrow>
          (case td xs of
             Inl e \<Rightarrow> c
           | Inr (z, coerced) \<Rightarrow>
               if max 1 (4 * length coerced div 5) \<le> notna coerced then DtCol z coerced else c)
      | _ \<Rightarrow> c)"

text \<open>
  The second \<^verbatim>\<open>try\<close>: \<^verbatim>\<open>tz_localize(None)\<close> drops the timezone of an aware column and
  keeps the UTC wall-clock instants; were it to raise, the column would become text.
\<close>

definition tz_localize_none :: "tz \<Rightarrow> int option list \<Rightarrow> error + column" where
  "tz_localize_none z ts = Inr (DtCol Naive ts)"

definition astype_str :: "column \<Rightarrow> column" where
  "astype_str c = ObjCol (col_cells c)"

definition strip_tz :: "column \<Rightarrow> column" where
  "strip_tz c =
     (case c of
        DtCol z ts \<Rightarrow>
          if z \<noteq> Naive
          then (case tz_localize_none z ts of Inl e \<Rightarrow> astype_str c | Inr c' \<Rightarrow> c')
          else c
      | _ \<Rightarrow> c)"

text \<open>
  \<^verbatim>\<open>
  def arrow_safe_df(df):
      if df.empty:
          return df
      frame = df.reset_index().copy()
      for c in frame.columns:
          if is_object_dtype(frame[c]) or is_string_dtype(frame[c]):
              try:
                  coerced = pd.to_datetime(frame[c], errors="coerce")
                  if coerced.notna().sum() >= max(1, int(0.8 * len(coerced))):
                      frame[c] = coerced
              except Exception:
                  pass
          if is_datetime64_any_dtype(frame[c]):
              try:
                  if getattr(frame[c].dt, "tz", None) is not None:
                      frame[c] = frame[c].dt.tz_localize(None)
              except Exception:
                  frame[c] = frame[c].astype(str)
      return frame
  \<close>
\<close>

definition arrow_safe_df ::
    "(cell list \<Rightarrow> error + tz \<times> int option list) \<Rightarrow> frame \<Rightarrow> error + frame" where
  "arrow_safe_df td df =
     (if df_empty df then Inr df
      else
        (case reset_index df of
           Inl e \<Rightarrow> Inl e
         | Inr frame \<Rightarrow>
             Inr (frame\<lparr>columns := map (\<lambda>kv. (fst kv, strip_tz (promote td (snd kv)))) (columns frame)\<rparr>)))"

text \<open>An instance of \<open>td\<close>: every cell converted by \<open>iso_cell\<close>, the result naive.\<close>

definition iso_column :: "cell list \<Rightarrow> error + tz \<times> int option list" where
  "iso_column xs = Inr (Naive, map iso_cell xs)"

section \<open>Sample inputs\<close>

text \<open>Concrete payloads, frames and files for the examples.\<close>

definition no_time_payload :: payload where
  "no_time_payload =
     Payload (Some [(''temperature_2m'', [CNum 70, CStr ''n/a'']),
                    (''precipitation'', [CNull, CStr ''0.5''])])"

definition ragged_payload :: payload where
  "ragged_payload =
     Payload (Some [(''temperature_2m'', [CNum 70, CNum 71]), (''precipitation'', [CNum 0])])"

definition bad_time_payload :: payload where
  "bad_time_payload =
     Payload (Some [(''time'', [CStr ''2025-09-04T01:00'', CStr ''not-a-time'', CStr ''2025-09-04T00:00'']),
                    (''temperature_2m'', [CNum 70, CNum 72, CNum 68])])"

definition messy_payload :: payload where
  "messy_payload =
     Payload (Some [(''time'', [CStr ''2025-09-04T02:00'', CStr ''??'', CStr ''2025-09-04T00:00'']),
                    (''precipitation'', [CStr ''0.5'', CNum 1, CStr ''n/a''])])"

definition one_row_payload :: payload where
  "one_row_payload =
     Payload (Some [(''time'', [CStr ''2025-09-04T00:00'']), (''temperature_2m'', [CNum 70])])"

definition one_row_frame :: frame where
  "one_row_frame =
     \<lparr>index = Index (DtCol UTC [Some 1756944000000000000]), index_name = Some ''time'',
      columns = [(''temperature_2m'', NumCol [Some 70])]\<rparr>"

definition no_rows_frame :: frame where
  "no_rows_frame =
     \<lparr>index = Index (DtCol UTC []), index_name = Some ''time'',
      columns = [(''temperature_2m'', NumCol [])]\<rparr>"

definition epoch_payload :: payload where
  "epoch_payload =
     Payload (Some [(''time'', [CNum 1000000, CNum 3600000000000]),
                    (''temperature_2m'', [CNum 70, CNum 71])])"

definition two_format_frame :: frame where
  "two_format_frame =
     \<lparr>index = Index (DtCol UTC [Some 1000000, Some 3600000000000]), index_name = Some ''time'',
      columns = [(''temperature_2m'', NumCol [Some 70, Some 71])]\<rparr>"

definition nameless_frame :: frame where
  "nameless_frame =
     \<lparr>index = Index (DtCol UTC [Some 1756944000000000000]), index_name = Some ''time'',
      columns = [([], NumCol [Some 70])]\<rparr>"

definition cached_files :: files where
  "cached_files = save_cache Map.empty one_row_frame (390639 / 10000) (- 1085506 / 10000)"

definition two_column_day :: frame where
  "two_column_day =
     \<lparr>index = Index (DtCol Naive [Some 0, Some 3600000000000, Some 7200000000000]),
      index_name = Some ''time'',
      columns =
        [(''temperature_2m'', NumCol [Some 70, Some 72, Some 68]),
         (''precipitation'', NumCol [Some 0, Some 1, Some 0])]\<rparr>"

definition sample_day :: frame where
  "sample_day =
     \<lparr>index = Index (DtCol Naive [Some 0, Some 3600000000000, Some 7200000000000]),
      index_name = Some ''time'',
      columns =
        [(''temperature_2m'', NumCol [Some 70, Some 72, Some 68]),
         (''precipitation'', NumCol [Some 0, Some 1, Some 0]),
         (''wind_speed_10m'', NumCol [Some 2, None, Some 3])]\<rparr>"

definition clashing_table :: frame where
  "clashing_table =
     \<lparr>index = Index (DtCol UTC [Some 1756944000000000000]), index_name = Some ''time'',
      columns = [(''time'', NumCol [Some 1])]\<rparr>"

definition mixed_table :: frame where
  "mixed_table =
     \<lparr>index = Index (DtCol UTC [Some 1756944000000000000, Some 1756947600000000000, None,
                                Some 1756951200000000000, Some 1756954800000000000]),
      index_name = Some ''time'',
      columns =
        [(''seen'', ObjCol [CStr ''2025-09-04T00:00'', CStr ''2025-09-04T01:00'', CStr ''later'',
                           CStr ''2025-09-04T02:00'', CStr ''2025-09-04T03:00'']),
         (''temperature_2m'', NumCol [Some 70, Some 71, None, Some 72, Some 73])]\<rparr>"

section \<open>Properties of the anomaly scorer\<close>



text \<open>
  The window is checked only for a series that is not empty: a window below 4 is then
  below \<open>min_periods\<close> and raises; any other window gives a series of scores.
\<close>

lemma rolling_anomaly_small_window:
  "s \<noteq> [] \<Longrightarrow> W < 4 \<Longrightarrow> rolling_anomaly (Some s) W = Inl ValueError"
  by (simp add: rolling_anomaly_def rolling_mean_def rolling_validate_def)


lemma fdiv_None [simp]: "fdiv a None = NaN" "fdiv None b = NaN"
  by (auto simp: fdiv_def split: option.splits)

lemma fsub_None [simp]: "fsub a None = None" "fsub None b = None"
  by (auto simp: fsub_def split: option.splits)



section \<open>Properties of the CSV header\<close>

text \<open>The header: names that are not empty are kept, and no field becomes \<open>time\<close>.\<close>

lemma unnamed_not_time: "header_name i n = ''time'' \<longleftrightarrow> n = ''time''"
  by (simp add: header_name_def)

lemma read_header_id:
  assumes "[] \<notin> fst ` set file"
  shows "read_header file = file"
proof -
  have "map (\<lambda>p. (header_name (fst p) (fst (snd p)), snd (snd p))) (zip [0..<length file] file) =
        map snd (zip [0..<length file] file)"
  proof (rule map_cong [OF refl])
    fix p
    assume "p \<in> set (zip [0..<length file] file)"
    then have "snd p \<in> set file" by (metis prod.collapse set_zip_rightD)
    with assms have "fst (snd p) \<noteq> []" by force
    then show "(header_name (fst p) (fst (snd p)), snd (snd p)) = snd p"
      by (simp add: header_name_def prod_eq_iff)
  qed
  then show ?thesis by (simp add: read_header_def)
qed

lemma read_header_nrows: "csv_nrows (read_header file) = csv_nrows file"
  by (cases "file") (simp_all add: read_header_def csv_nrows_def upt_conv_Cons del: upt_Suc)

lemma read_header_no_time:
  assumes "map_of file ''time'' = None"
  shows "map_of (read_header file) ''time'' = None"
proof -
  from assms have n: "''time'' \<notin> fst ` set file" by (simp add: map_of_eq_None_iff)
  have "''time'' \<notin> fst ` set (read_header file)"
  proof
    assume "''time'' \<in> fst ` set (read_header file)"
    then obtain p where p: "p \<in> set (zip [0..<length file] file)"
      and h: "header_name (fst p) (fst (snd p)) = ''time''"
      by (auto simp: read_header_def)
    from p have "snd p \<in> set file" by (metis prod.collapse set_zip_rightD)
    moreover from h have "fst (snd p) = ''time''" by (simp add: unnamed_not_time)
    ultimately show False using n by force
  qed
  then show ?thesis by (simp add: map_of_eq_None_iff)
qed

section \<open>Properties of the parser\<close>

lemma map_insort_key_fst:
  "map f (insort_key (\<lambda>x. k (f x)) a xs) = insort_key k (f a) (map f xs)"
  by (induction xs) auto

lemma map_sort_key_fst:
  "map f (sort_key (\<lambda>x. k (f x)) xs) = sort_key k (map f xs)"
  by (induction xs) (auto simp: map_insort_key_fst)

lemma fst_by_key:
  "length ts = length xs \<Longrightarrow>
   map fst (sort_key (\<lambda>p. nat_key (fst p)) (zip ts xs)) = sort_key nat_key ts"
  by (simp add: map_sort_key_fst)

lemma zip_by_key:
  assumes "length ts = length xs"
  shows "zip (sort_key nat_key ts) (by_key ts xs) = sort_key (\<lambda>p. nat_key (fst p)) (zip ts xs)"
proof -
  let ?S = "sort_key (\<lambda>p. nat_key (fst p)) (zip ts xs)"
  have "zip (map fst ?S) (map snd ?S) = ?S" by (simp add: zip_map_fst_snd)
  with fst_by_key [OF assms] show ?thesis by (simp add: by_key_def)
qed

lemma mset_zip_by_key:
  assumes "length ts = length xs"
  shows "mset (zip (sort_key nat_key ts) (map g (by_key ts xs))) = mset (zip ts (map g xs))"
proof -
  let ?S = "sort_key (\<lambda>p. nat_key (fst p)) (zip ts xs)"
  have "zip (sort_key nat_key ts) (map g (by_key ts xs)) = map (\<lambda>p. (fst p, g (snd p))) ?S"
    using zip_by_key [OF assms, symmetric]
    by (simp add: zip_map2 case_prod_beta)
  moreover have "zip ts (map g xs) = map (\<lambda>p. (fst p, g (snd p))) (zip ts xs)"
    by (simp add: zip_map2 case_prod_beta)
  ultimately show ?thesis by simp
qed

lemma nat_key_le:
  "nat_key (Some t) \<le> nat_key (Some u) \<longleftrightarrow> t \<le> u"
  "nat_key None \<le> nat_key x \<longleftrightarrow> x = None"
  "nat_key (Some t) \<le> nat_key None"
  by (auto simp: nat_key_def less_eq_prod_def split: option.splits)

lemma sorted_nat_key_shape:
  "sorted (map nat_key idx) \<Longrightarrow> \<exists>ts k. idx = map Some ts @ replicate k None \<and> sorted ts"
proof (induction idx)
  case Nil
  then show ?case by simp
next
  case (Cons a idx)
  then obtain ts k where s: "idx = map Some ts @ replicate k None" "sorted ts" by auto
  show ?case
  proof (cases a)
    case None
    with Cons.prems have "\<forall>x \<in> set idx. nat_key None \<le> nat_key x" by simp
    then have "\<forall>x \<in> set idx. x = None"
      by (simp add: nat_key_le)
    with s have "ts = []" by (cases ts) auto
    with s None have "a # idx = map Some [] @ replicate (Suc k) None" by simp
    then show ?thesis by (metis sorted_wrt.simps(1))
  next
    case (Some t)
    with Cons.prems have "\<forall>x \<in> set idx. nat_key (Some t) \<le> nat_key x" by simp
    with s have "\<forall>u \<in> set ts. nat_key (Some t) \<le> nat_key (Some u)"
      by auto
    then have "\<forall>u \<in> set ts. t \<le> u"
      by (simp add: nat_key_le)
    with s Some have "a # idx = map Some (t # ts) @ replicate k None \<and> sorted (t # ts)" by simp
    then show ?thesis by blast
  qed
qed

lemma sort_nat_key_shape:
  "\<exists>ts k. sort_key nat_key xs = map Some ts @ replicate k None \<and> sorted ts"
  by (rule sorted_nat_key_shape) (rule sorted_sort_key)

lemma DataFrame_equal:
  assumes "h \<noteq> []" and "list_all (\<lambda>kv. length (snd kv) = n) h"
  shows "DataFrame h = Inr \<lparr>index = RangeIndex n, index_name = None,
                            columns = map (\<lambda>kv. (fst kv, ObjCol (snd kv))) h\<rparr>"
  using assms by (cases h) (auto simp: DataFrame_def)

lemma map_of_ObjCol:
  "map_of (map (\<lambda>kv. (fst kv, ObjCol (snd kv))) h) k = map_option ObjCol (map_of h k)"
  by (induction h) auto

lemma hourly_to_frame_plain:
  assumes "hourly p = Some h" and "h \<noteq> []"
    and "map_of h ''time'' = None"
    and "list_all (\<lambda>kv. length (snd kv) = n) h"
  shows "hourly_to_frame dt nm (Js p) =
           Inr \<lparr>index = RangeIndex n, index_name = None,
                columns = map (\<lambda>kv. (fst kv, NumCol (map (to_numeric_cell nm) (snd kv)))) h\<rparr>"
  using assms DataFrame_equal [OF assms(2,4)]
  by (simp add: hourly_to_frame_def get_hourly_def map_of_ObjCol to_numeric_def comp_def coerce_columns_def)

lemma hourly_to_frame_time:
  assumes "hourly p = Some h"
    and "map_of h ''time'' = Some stamps"
    and "list_all (\<lambda>kv. length (snd kv) = length stamps) h"
  shows "hourly_to_frame dt nm (Js p) =
           Inr \<lparr>index = Index (DtCol UTC (sort_key nat_key (map dt stamps))),
                index_name = Some ''time'',
                columns = map (\<lambda>kv. (fst kv, NumCol (map (to_numeric_cell nm) (by_key (map dt stamps) (snd kv)))))
                            (filter (\<lambda>kv. fst kv \<noteq> ''time'') h)\<rparr>"
proof -
  from assms(2) have ne: "h \<noteq> []" by auto
  from assms ne DataFrame_equal [OF ne assms(3)] show ?thesis
    by (simp add: hourly_to_frame_def get_hourly_def map_of_ObjCol to_numeric_def comp_def
        coerce_columns_def set_index_def sort_index_def to_datetime_utc_def filter_map by_key_def)
qed

text \<open>Whatever the payload, a frame that comes back has float columns only, and an index
  that is positional and unnamed, or a UTC datetime index named \<open>time\<close>.\<close>

lemma to_numeric_NumCol: "\<exists>xs. to_numeric nm c = NumCol xs"
  by (cases c) (simp_all add: to_numeric_def)

lemma hourly_to_frame_shape:
  assumes "hourly_to_frame dt nm (Js p) = Inr df"
  shows "(\<forall>kv \<in> set (columns df). \<exists>xs. snd kv = NumCol xs) \<and>
         ((\<exists>n. index df = RangeIndex n \<and> index_name df = None) \<or>
          (\<exists>ts. index df = Index (DtCol UTC ts) \<and> index_name df = Some ''time''))"
proof (cases "hourly p")
  case None
  with assms show ?thesis
    by (auto simp: hourly_to_frame_def get_hourly_def empty_frame_def)
next
  case (Some h)
  show ?thesis
  proof (cases "h = []")
    case True
    with Some assms show ?thesis
      by (auto simp: hourly_to_frame_def get_hourly_def empty_frame_def)
  next
    case False
    with Some assms obtain raw where raw: "DataFrame h = Inr raw"
      by (auto simp: hourly_to_frame_def get_hourly_def split: sum.splits)
    with False have rawi: "\<exists>n. index raw = RangeIndex n" "index_name raw = None"
      by (auto simp: DataFrame_def split: list.splits if_splits)
    show ?thesis
    proof (cases "map_of (columns raw) ''time''")
      case None
      with Some False raw assms rawi show ?thesis
        using to_numeric_NumCol
        by (auto simp: hourly_to_frame_def get_hourly_def coerce_columns_def)
    next
      case (Some c)
      with \<open>hourly p = Some h\<close> False raw assms show ?thesis
        using to_numeric_NumCol
        by (auto simp: hourly_to_frame_def get_hourly_def set_index_def sort_index_def coerce_columns_def)
    qed
  qed
qed

text \<open>
  Counterexample to claim C10 as the specification states it.  The hourly block of this
  payload is not empty and has no key \<open>time\<close>, and its two arrays differ in length:
  \<^verbatim>\<open>pd.DataFrame(hourly)\<close> raises \<^verbatim>\<open>ValueError\<close> and no frame is returned.
\<close>

theorem hourly_to_frame_ragged_raises:
  "hourly_to_frame iso_cell decimal (Js ragged_payload) = Inl ValueError"
  by (simp add: ragged_payload_def hourly_to_frame_def get_hourly_def DataFrame_def)

text \<open>
  Claim C10, as the code has it.  When the hourly block is non-empty, has no key \<open>time\<close>
  and its arrays have one length \<open>n\<close>, \<open>hourly_to_frame\<close> returns, with no error, a frame
  under the default positional index, unnamed and in payload order, with every column
  coerced to numbers.  That frame breaks what the later stages rely on: its index has no
  timezone, \<open>daily_summary\<close> raises on it, and once saved it cannot be loaded.
\<close>

theorem hourly_to_frame_no_time:
  assumes "hourly p = Some h" and "h \<noteq> []"
    and "map_of h ''time'' = None"
    and "list_all (\<lambda>kv. length (snd kv) = n) h"
  shows "\<exists>df. hourly_to_frame dt nm (Js p) = Inr df \<and>
           df = \<lparr>index = RangeIndex n, index_name = None,
                 columns = map (\<lambda>kv. (fst kv, NumCol (map (to_numeric_cell nm) (snd kv)))) h\<rparr> \<and>
           index_tz (index df) = Inl AttributeError \<and>
           (0 < n \<longrightarrow> daily_summary df = Inl TypeError) \<and>
           load_cache (save_cache fs df lat lon) lat lon = Inl ValueError"
proof -
  let ?df = "\<lparr>index = RangeIndex n, index_name = None,
               columns = map (\<lambda>kv. (fst kv, NumCol (map (to_numeric_cell nm) (snd kv)))) h\<rparr>"
  have r: "hourly_to_frame dt nm (Js p) = Inr ?df"
    by (rule hourly_to_frame_plain [OF assms])
  have t: "index_tz (index ?df) = Inl AttributeError"
    by (simp add: index_tz_def)
  have d: "daily_summary ?df = Inl TypeError" if "0 < n"
    using that assms(2) by (simp add: daily_summary_def df_empty_def)
  have "map_of (map (\<lambda>kv. (fst kv, f (snd kv))) h) ''time'' = None" for f :: "cell list \<Rightarrow> cell list"
    using assms(3) by (induction h) (auto split: if_splits)
  then have "map_of (to_csv ?df) ''time'' = None"
    by (simp add: to_csv_def comp_def)
  then have "map_of (read_header (to_csv ?df)) ''time'' = None"
    by (rule read_header_no_time)
  then have l: "load_cache (save_cache fs ?df lat lon) lat lon = Inl ValueError"
    by (simp add: load_cache_def save_cache_def read_csv_time_def)
  from r t d l show ?thesis by blast
qed

theorem hourly_to_frame_no_time_witness:
  "hourly no_time_payload \<noteq> None \<and> the (hourly no_time_payload) \<noteq> [] \<and>
   map_of (the (hourly no_time_payload)) ''time'' = None \<and>
   list_all (\<lambda>kv. length (snd kv) = 2) (the (hourly no_time_payload)) \<and>
   hourly_to_frame iso_cell decimal (Js no_time_payload) =
     Inr \<lparr>index = RangeIndex 2, index_name = None,
          columns = [(''temperature_2m'', NumCol [Some 70, None]),
                     (''precipitation'', NumCol [None, Some (1 / 2)])]\<rparr> \<and>
   daily_summary
     \<lparr>index = RangeIndex 2, index_name = None,
      columns = [(''temperature_2m'', NumCol [Some 70, None]),
                 (''precipitation'', NumCol [None, Some (1 / 2)])]\<rparr> = Inl TypeError"
proof -
  let ?h = "[(''temperature_2m'', [CNum 70, CStr ''n/a'']), (''precipitation'', [CNull, CStr ''0.5''])]"
  have p: "hourly no_time_payload = Some ?h" by (simp add: no_time_payload_def)
  have ne: "?h \<noteq> []" by simp
  have nt: "map_of ?h ''time'' = None" by simp
  have eq: "list_all (\<lambda>kv. length (snd kv) = 2) ?h" by simp
  have d1: "decimal ''n/a'' = None" by (simp add: decimal_def number_def digit_def)
  have d2: "decimal ''0.5'' = Some (1 / 2)" by (simp add: decimal_def number_def digit_def)
  from hourly_to_frame_no_time [OF p ne nt eq, of iso_cell decimal Map.empty 0 0] p d1 d2
  show ?thesis by auto
qed

lemma DataFrame_Inr:
  assumes "DataFrame h = Inr raw" and "h \<noteq> []"
  shows "\<exists>n. list_all (\<lambda>kv. length (snd kv) = n) h"
  using assms by (cases h) (auto simp: DataFrame_def split: if_splits)

lemma hourly_to_frame_cases:
  assumes "hourly_to_frame dt nm (Js p) = Inr df"
  shows "df = empty_frame \<or>
         (\<exists>h n. hourly p = Some h \<and> h \<noteq> [] \<and> map_of h ''time'' = None \<and>
                list_all (\<lambda>kv. length (snd kv) = n) h) \<or>
         (\<exists>h stamps. hourly p = Some h \<and> map_of h ''time'' = Some stamps \<and>
                list_all (\<lambda>kv. length (snd kv) = length stamps) h)"
proof (cases "hourly p")
  case None
  with assms show ?thesis by (auto simp: hourly_to_frame_def get_hourly_def)
next
  case (Some h)
  show ?thesis
  proof (cases "h = []")
    case True
    with Some assms show ?thesis by (auto simp: hourly_to_frame_def get_hourly_def)
  next
    case False
    with Some assms obtain raw where "DataFrame h = Inr raw"
      by (auto simp: hourly_to_frame_def get_hourly_def split: sum.splits)
    from DataFrame_Inr [OF this False] obtain n
      where n: "list_all (\<lambda>kv. length (snd kv) = n) h" ..
    show ?thesis
    proof (cases "map_of h ''time''")
      case None
      with Some False n show ?thesis by blast
    next
      case (Some stamps)
      then have "(''time'', stamps) \<in> set h" by (rule map_of_SomeD)
      with n have "length stamps = n" by (auto simp: list_all_iff)
      with n Some \<open>hourly p = Some h\<close> show ?thesis by blast
    qed
  qed
qed

lemma normalized_frame:
  assumes "hourly_to_frame dt nm (Js p) = Inr df"
  shows "coerce_columns nm df = df \<and>
         (\<forall>z idx. index df = Index (DtCol z idx) \<longrightarrow>
            (\<exists>ts k. idx = map Some ts @ replicate k None \<and> sorted ts))"
proof -
  from hourly_to_frame_cases [OF assms]
  consider (e) "df = empty_frame"
    | (plain) h n where "hourly p = Some h" "h \<noteq> []" "map_of h ''time'' = None"
        "list_all (\<lambda>kv. length (snd kv) = n) h"
    | (time) h stamps where "hourly p = Some h" "map_of h ''time'' = Some stamps"
        "list_all (\<lambda>kv. length (snd kv) = length stamps) h"
    by blast
  then show ?thesis
  proof cases
    case e
    then show ?thesis by (simp add: empty_frame_def coerce_columns_def)
  next
    case plain
    from hourly_to_frame_plain [OF plain, of dt nm] assms
    have df: "df = \<lparr>index = RangeIndex n, index_name = None,
                columns = map (\<lambda>kv. (fst kv, NumCol (map (to_numeric_cell nm) (snd kv)))) h\<rparr>"
      by simp
    then show ?thesis
      by (simp add: coerce_columns_def to_numeric_def comp_def)
  next
    case time
    let ?ts = "map dt stamps"
    let ?idx = "sort_key nat_key ?ts"
    let ?cols = "map (\<lambda>kv. (fst kv, NumCol (map (to_numeric_cell nm) (by_key ?ts (snd kv)))))
                   (filter (\<lambda>kv. fst kv \<noteq> ''time'') h)"
    from hourly_to_frame_time [OF time, of dt nm] assms
    have df: "df = \<lparr>index = Index (DtCol UTC ?idx), index_name = Some ''time'', columns = ?cols\<rparr>"
      by simp
    have "map (\<lambda>kv. (fst kv, to_numeric nm (snd kv))) ?cols = ?cols"
      by (simp add: to_numeric_def comp_def)
    with df have c: "coerce_columns nm df = df"
      by (simp add: coerce_columns_def)
    from sort_nat_key_shape [of ?ts] df
    have "\<forall>z idx. index df = Index (DtCol z idx) \<longrightarrow>
            (\<exists>ts k. idx = map Some ts @ replicate k None \<and> sorted ts)"
      by simp
    with c show ?thesis ..
  qed
qed

lemma hourly_to_frame_on_frame:
  "hourly_to_frame dt nm (Df df) =
     (if map_of (columns df) ''hourly'' = None then Inr empty_frame else Inl ValueError)"
  by (auto simp: hourly_to_frame_def get_hourly_def)

lemma empty_frame_no_columns: "columns empty_frame = []"
  by (simp add: empty_frame_def)

text \<open>
  Counterexample to claim C2 as the specification states it.  The second timestamp of
  this payload does not parse; its row is kept, under NaT, after the two rows that
  parsed.
\<close>

theorem hourly_to_frame_keeps_unparsed_row:
  "hourly_to_frame iso_cell decimal (Js bad_time_payload) =
     Inr \<lparr>index = Index (DtCol UTC [Some 1756944000000000000, Some 1756947600000000000, None]),
          index_name = Some ''time'',
          columns = [(''temperature_2m'', NumCol [Some 68, Some 70, Some 72])]\<rparr>"
  by (simp add: bad_time_payload_def hourly_to_frame_def get_hourly_def DataFrame_def set_index_def
      sort_index_def to_datetime_utc_def to_numeric_def coerce_columns_def by_key_def nat_key_def
      iso_minute_def number_def digit_def days_from_civil_def days_in_month_def leap_year_def)

text \<open>
  Claim C2, as the code has it.  For a payload whose hourly block has a key \<open>time\<close> and
  arrays of one length, \<open>hourly_to_frame\<close> returns a frame and does not raise.  Its index
  is the UTC instants of the \<open>time\<close> array, all of them: the ones that parsed in
  ascending order, then one NaT for every timestamp that failed to parse, whose row is
  kept.  Every other column is there under its name, as numbers or NaN, each value still
  beside the timestamp of its row.
\<close>

theorem hourly_to_frame_keeps_rows:
  assumes "hourly p = Some h"
    and "map_of h ''time'' = Some stamps"
    and "list_all (\<lambda>kv. length (snd kv) = length stamps) h"
  shows "\<exists>idx cols.
           hourly_to_frame dt nm (Js p) =
             Inr \<lparr>index = Index (DtCol UTC idx), index_name = Some ''time'', columns = cols\<rparr> \<and>
           mset idx = mset (map dt stamps) \<and>
           (\<exists>ts k. idx = map Some ts @ replicate k None \<and> sorted ts) \<and>
           map fst cols = filter (\<lambda>c. c \<noteq> ''time'') (map fst h) \<and>
           (\<forall>kv \<in> set h. fst kv \<noteq> ''time'' \<longrightarrow>
              (\<exists>ys. (fst kv, NumCol ys) \<in> set cols \<and>
                    mset (zip idx ys) = mset (zip (map dt stamps) (map (to_numeric_cell nm) (snd kv)))))"
proof -
  let ?ts = "map dt stamps"
  let ?idx = "sort_key nat_key ?ts"
  let ?cols = "map (\<lambda>kv. (fst kv, NumCol (map (to_numeric_cell nm) (by_key ?ts (snd kv)))))
                 (filter (\<lambda>kv. fst kv \<noteq> ''time'') h)"
  have r: "hourly_to_frame dt nm (Js p) =
             Inr \<lparr>index = Index (DtCol UTC ?idx), index_name = Some ''time'', columns = ?cols\<rparr>"
    by (rule hourly_to_frame_time [OF assms])
  have m: "mset ?idx = mset ?ts" by simp
  have s: "\<exists>ts k. ?idx = map Some ts @ replicate k None \<and> sorted ts"
    by (rule sort_nat_key_shape)
  have n: "map fst ?cols = filter (\<lambda>c. c \<noteq> ''time'') (map fst h)"
    by (simp add: comp_def filter_map)
  have c: "\<exists>ys. (fst kv, NumCol ys) \<in> set ?cols \<and>
             mset (zip ?idx ys) = mset (zip ?ts (map (to_numeric_cell nm) (snd kv)))"
    if kv: "kv \<in> set h" "fst kv \<noteq> ''time''" for kv
  proof -
    from assms(3) kv have len: "length ?ts = length (snd kv)"
      by (auto simp: list_all_iff)
    from kv have "(fst kv, NumCol (map (to_numeric_cell nm) (by_key ?ts (snd kv)))) \<in> set ?cols"
      by force
    with mset_zip_by_key [OF len] show ?thesis by blast
  qed
  from r m s n c show ?thesis by blast
qed

theorem hourly_to_frame_keeps_rows_witness:
  "hourly messy_payload =
     Some [(''time'', [CStr ''2025-09-04T02:00'', CStr ''??'', CStr ''2025-09-04T00:00'']),
           (''precipitation'', [CStr ''0.5'', CNum 1, CStr ''n/a''])] \<and>
   (\<exists>idx cols.
      hourly_to_frame iso_cell decimal (Js messy_payload) =
        Inr \<lparr>index = Index (DtCol UTC idx), index_name = Some ''time'', columns = cols\<rparr> \<and>
      mset idx = mset [Some 1756951200000000000, None, Some 1756944000000000000] \<and>
      (\<exists>ts k. idx = map Some ts @ replicate k None \<and> sorted ts) \<and>
      map fst cols = [''precipitation''] \<and>
      (\<exists>ys. (''precipitation'', NumCol ys) \<in> set cols \<and>
         mset (zip idx ys) =
           mset [(Some 1756951200000000000, Some (1 / 2)), (None, Some 1),
                 (Some 1756944000000000000, None)]))"
proof -
  let ?stamps = "[CStr ''2025-09-04T02:00'', CStr ''??'', CStr ''2025-09-04T00:00'']"
  let ?h = "[(''time'', ?stamps), (''precipitation'', [CStr ''0.5'', CNum 1, CStr ''n/a''])]"
  have p: "hourly messy_payload = Some ?h" by (simp add: messy_payload_def)
  have t: "map_of ?h ''time'' = Some ?stamps" by simp
  have l: "list_all (\<lambda>kv. length (snd kv) = length ?stamps) ?h" by simp
  have i: "map iso_cell ?stamps = [Some 1756951200000000000, None, Some 1756944000000000000]"
    by (simp add: iso_minute_def number_def digit_def days_from_civil_def days_in_month_def
        leap_year_def)
  have d: "decimal ''0.5'' = Some (1 / 2)" "decimal ''n/a'' = None"
    by (simp_all add: decimal_def number_def digit_def)
  from hourly_to_frame_keeps_rows [OF p t l, of iso_cell decimal] p
  show ?thesis unfolding i by (simp add: d)
qed

text \<open>
  Counterexample to claim C6 as the specification states it.  One row comes out of
  this payload; given that frame, \<open>hourly_to_frame\<close> finds no entry \<open>hourly\<close> in it and
  returns the empty frame.
\<close>

theorem hourly_to_frame_not_idempotent:
  "hourly_to_frame iso_cell decimal (Js one_row_payload) = Inr one_row_frame \<and>
   hourly_to_frame iso_cell decimal (Df one_row_frame) = Inr empty_frame \<and>
   empty_frame \<noteq> one_row_frame"
  by (simp add: one_row_payload_def one_row_frame_def empty_frame_def hourly_to_frame_def
      get_hourly_def DataFrame_def set_index_def sort_index_def to_datetime_utc_def to_numeric_def
      coerce_columns_def by_key_def nat_key_def iso_minute_def number_def digit_def
      days_from_civil_def days_in_month_def leap_year_def)

text \<open>
  Claim C6, as the code has it.  Let \<open>df\<close> be the frame \<open>hourly_to_frame\<close> returns for a
  payload.  Applied to \<open>df\<close>, the function returns the empty frame when \<open>df\<close> has no
  column \<open>hourly\<close> (and raises when it has one), so the second application gives the
  result of the first exactly when that result is the empty frame.  What a second
  normalization would establish holds of \<open>df\<close> already: coercing its columns to numbers
  leaves it as it is, and a datetime index of \<open>df\<close> is in ascending order, NaT last.
\<close>

theorem hourly_to_frame_twice:
  assumes "hourly_to_frame dt nm (Js p) = Inr df"
  shows "(map_of (columns df) ''hourly'' = None \<longrightarrow> hourly_to_frame dt nm (Df df) = Inr empty_frame) \<and>
         (hourly_to_frame dt nm (Df df) = Inr df \<longleftrightarrow> df = empty_frame) \<and>
         coerce_columns nm df = df \<and>
         (\<forall>z idx. index df = Index (DtCol z idx) \<longrightarrow>
            (\<exists>ts k. idx = map Some ts @ replicate k None \<and> sorted ts))"
proof -
  have 1: "map_of (columns df) ''hourly'' = None \<longrightarrow> hourly_to_frame dt nm (Df df) = Inr empty_frame"
    by (simp add: hourly_to_frame_on_frame)
  have 2: "hourly_to_frame dt nm (Df df) = Inr df \<longleftrightarrow> df = empty_frame"
    by (auto simp: hourly_to_frame_on_frame empty_frame_no_columns split: if_splits)
  from normalized_frame [OF assms] have 3: "coerce_columns nm df = df"
    and 4: "\<forall>z idx. index df = Index (DtCol z idx) \<longrightarrow>
            (\<exists>ts k. idx = map Some ts @ replicate k None \<and> sorted ts)"
    by blast+
  from 1 2 3 4 show ?thesis by (intro conjI)
qed

theorem hourly_to_frame_twice_witness:
  "hourly_to_frame iso_cell decimal (Js one_row_payload) = Inr one_row_frame \<and>
   map_of (columns one_row_frame) ''hourly'' = None \<and>
   hourly_to_frame iso_cell decimal (Df one_row_frame) = Inr empty_frame \<and>
   hourly_to_frame iso_cell decimal (Df one_row_frame) \<noteq> Inr one_row_frame \<and>
   coerce_columns decimal one_row_frame = one_row_frame \<and>
   index one_row_frame = Index (DtCol UTC [Some 1756944000000000000]) \<and>
   (\<exists>ts k. [Some (1756944000000000000::int)] = map Some ts @ replicate k None \<and> sorted ts)"
proof -
  have r: "hourly_to_frame iso_cell decimal (Js one_row_payload) = Inr one_row_frame"
    by (simp add: one_row_payload_def one_row_frame_def hourly_to_frame_def
      get_hourly_def DataFrame_def set_index_def sort_index_def to_datetime_utc_def to_numeric_def
      coerce_columns_def by_key_def nat_key_def iso_minute_def number_def digit_def
      days_from_civil_def days_in_month_def leap_year_def)
  have c: "map_of (columns one_row_frame) ''hourly'' = None"
    by (simp add: one_row_frame_def)
  have n: "one_row_frame \<noteq> empty_frame"
    by (simp add: one_row_frame_def empty_frame_def)
  have i: "index one_row_frame = Index (DtCol UTC [Some 1756944000000000000])"
    by (simp add: one_row_frame_def)
  from hourly_to_frame_twice [OF r] r c n i show ?thesis by auto
qed

section \<open>Properties of the cache store\<close>

lemma length_col_cells: "length (col_cells c) = col_len c"
  by (cases c) simp_all

lemma length_index_cells: "length (col_cells (index_column ix)) = index_len ix"
  by (cases ix) (simp_all add: length_col_cells)

lemma cell_of_float [simp]: "is_float (cell_of v)" "float_value (cell_of v) = v"
  by (auto simp: is_float_def float_value_def cell_of_def split: option.splits)

lemma stamp_of_stamp [simp]: "is_stamp (stamp_of z t)" "stamp_value (stamp_of z t) = t"
  by (auto simp: is_stamp_def stamp_value_def stamp_of_def split: option.splits)

lemma infer_column_NumCol: "infer_column (col_cells (NumCol xs)) = NumCol xs"
  by (simp add: infer_column_def list_all_iff comp_def)

text \<open>The timestamps that \<^verbatim>\<open>to_csv\<close> printed: when they parse.\<close>

lemma stamp_zones_stamp_of: "list_all (\<lambda>y. y = z) (stamp_zones (map (stamp_of z) ts))"
  by (induction ts) (auto simp: stamp_zones_def stamp_of_def split: option.splits)

lemma aware_formats_whole:
  "whole_seconds ts \<Longrightarrow> list_all (\<lambda>g. g = True) (aware_formats (map (stamp_of z) ts))"
  by (induction ts) (auto simp: whole_seconds_def aware_formats_def stamp_of_def split: option.splits)

lemma one_format_whole:
  assumes "whole_seconds ts"
  shows "one_format (map (stamp_of z) ts)"
proof -
  from aware_formats_whole [OF assms, of z]
  have a: "list_all (\<lambda>g. g = True) (aware_formats (map (stamp_of z) ts))" .
  show ?thesis
  proof (cases "aware_formats (map (stamp_of z) ts)")
    case Nil
    then show ?thesis by (simp add: one_format_def)
  next
    case (Cons f fs)
    with a show ?thesis by (auto simp: one_format_def list_all_iff)
  qed
qed

lemma parse_dates_stamps:
  assumes "z = UTC \<longrightarrow> whole_seconds ts"
  shows "\<exists>z'. parse_dates (map (stamp_of z) ts) = DtCol z' ts"
proof -
  have s: "list_all is_stamp (map (stamp_of z) ts)"
    by (simp add: list_all_iff)
  have v: "map stamp_value (map (stamp_of z) ts) = ts"
    by (simp add: comp_def)
  show ?thesis
  proof (cases z)
    case Naive
    with stamp_zones_stamp_of [of Naive ts] s v show ?thesis
      by (simp only: parse_dates_def if_True simp_thms) blast
  next
    case UTC
    with assms have "one_format (map (stamp_of UTC) ts)" by (simp add: one_format_whole)
    with UTC stamp_zones_stamp_of [of UTC ts] s v show ?thesis
      by (simp only: parse_dates_def if_True simp_thms split: if_splits) blast
  qed
qed

lemma read_csv_time_to_csv:
  assumes "index df = Index (DtCol z ts)" and "index_name df = Some ''time''" and "ts \<noteq> []"
    and "\<forall>kv \<in> set (columns df). \<exists>xs. snd kv = NumCol xs"
    and "[] \<notin> fst ` set (columns df)"
    and "z = UTC \<longrightarrow> whole_seconds ts"
  shows "\<exists>z'. read_csv_time (to_csv df) =
           Inr \<lparr>index = Index (DtCol z' ts), index_name = Some ''time'', columns = columns df\<rparr>"
proof -
  have "map (\<lambda>kv. (fst kv, infer_column (col_cells (snd kv)))) (columns df) = columns df"
  proof (rule map_idI)
    fix kv
    assume "kv \<in> set (columns df)"
    with assms(4) obtain xs where "snd kv = NumCol xs" by blast
    then have "infer_column (col_cells (snd kv)) = snd kv"
      by (simp only: infer_column_NumCol)
    then show "(fst kv, infer_column (col_cells (snd kv))) = kv"
      by (simp add: prod_eq_iff)
  qed
  moreover from assms(2,5) have "[] \<notin> fst ` set (to_csv df)"
    by (force simp: to_csv_def)
  then have "read_header (to_csv df) = to_csv df" by (rule read_header_id)
  ultimately show ?thesis
    using assms(1-3) parse_dates_stamps [OF assms(6)]
    by (auto simp: read_csv_time_def to_csv_def csv_nrows_def comp_def)
qed

lemma load_save_utc:
  assumes "index df = Index (DtCol z ts)" and "index_name df = Some ''time''" and "ts \<noteq> []"
    and "\<forall>kv \<in> set (columns df). \<exists>xs. snd kv = NumCol xs"
    and "[] \<notin> fst ` set (columns df)"
    and "z = UTC \<longrightarrow> whole_seconds ts"
  shows "load_cache (save_cache fs df lat lon) lat lon =
           Inr \<lparr>index = Index (DtCol UTC ts), index_name = Some ''time'', columns = columns df\<rparr>"
proof -
  from read_csv_time_to_csv [OF assms] obtain z' where
    r: "read_csv_time (to_csv df) =
          Inr \<lparr>index = Index (DtCol z' ts), index_name = Some ''time'', columns = columns df\<rparr>" ..
  show ?thesis
    by (cases z') (simp_all add: load_cache_def save_cache_def r index_tz_def tz_localize_utc_def)
qed

text \<open>
  A column without a name does not keep it: this frame comes back with its column
  renamed.
\<close>

lemma show_nat_1: "show_nat (Suc 0) = ''1''"
  by code_simp

lemma load_renames_empty_name:
  "load_cache (save_cache Map.empty nameless_frame 0 0) 0 0 =
     Inr (nameless_frame\<lparr>columns := [(''Unnamed: 1'', NumCol [Some 70])]\<rparr>)"
  by (simp add: load_cache_def save_cache_def read_csv_time_def read_header_def header_name_def
      to_csv_def nameless_frame_def csv_nrows_def index_tz_def parse_dates_def is_stamp_def
      stamp_of_def stamp_zones_def stamp_value_def aware_formats_def one_format_def
      whole_second_def infer_column_def is_float_def float_value_def cell_of_def upt_conv_Cons
      show_nat_1 del: show_nat.simps)

text \<open>
  Counterexample to claim C3 as the specification states it.  The two instants of this
  series, 1 ms and 1 h after the epoch, are printed in two formats (with and without a
  sub-second part).  \<^verbatim>\<open>read_csv\<close> does not parse the column, the index it returns has
  no \<^verbatim>\<open>tz\<close>, and \<open>load_cache\<close> raises \<^verbatim>\<open>AttributeError\<close>.
\<close>

theorem load_save_two_formats:
  "hourly_to_frame iso_cell decimal (Js epoch_payload) = Inr two_format_frame \<and>
   index two_format_frame = Index (DtCol UTC [Some 1000000, Some 3600000000000]) \<and>
   \<not> df_empty two_format_frame \<and>
   load_cache (save_cache Map.empty two_format_frame (390639 / 10000) (- 1085506 / 10000))
     (390639 / 10000) (- 1085506 / 10000) = Inl AttributeError"
proof -
  have r: "hourly_to_frame iso_cell decimal (Js epoch_payload) = Inr two_format_frame"
    by (simp add: epoch_payload_def two_format_frame_def hourly_to_frame_def
      get_hourly_def DataFrame_def set_index_def sort_index_def to_datetime_utc_def to_numeric_def
      coerce_columns_def by_key_def nat_key_def)
  have "[] \<notin> fst ` set (to_csv two_format_frame)"
    by (simp add: to_csv_def two_format_frame_def)
  then have h: "read_header (to_csv two_format_frame) = to_csv two_format_frame"
    by (rule read_header_id)
  have l: "load_cache (save_cache Map.empty two_format_frame (390639 / 10000) (- 1085506 / 10000))
     (390639 / 10000) (- 1085506 / 10000) = Inl AttributeError"
    by (simp add: load_cache_def save_cache_def read_csv_time_def h)
       (simp add: to_csv_def two_format_frame_def csv_nrows_def index_tz_def parse_dates_def
          is_stamp_def stamp_of_def stamp_zones_def aware_formats_def one_format_def
          whole_second_def)
  from r l show ?thesis
    by (simp add: two_format_frame_def df_empty_def)
qed

text \<open>
  Claim C3, as the code has it.  A series that \<open>hourly_to_frame\<close> returned, UTC-indexed
  and not empty, whose instants are whole seconds (so that all are printed in one
  format) and whose columns have distinct names, none empty, saved for a location and
  loaded for that location, comes back as it was, each number as the number printed.
  The same series comes back, with its UTC index, when the file has lost the timezone
  (here: when the series was saved with a naive index).
\<close>

theorem load_save_whole_seconds:
  assumes "hourly_to_frame dt nm (Js p) = Inr df"
    and "index df = Index (DtCol UTC ts)"
    and "\<not> df_empty df"
    and "whole_seconds ts"
    and "distinct (map fst (columns df))"
    and "[] \<notin> fst ` set (columns df)"
  shows "load_cache (save_cache fs df lat lon) lat lon = Inr df \<and>
         load_cache (save_cache fs (df\<lparr>index := Index (DtCol Naive ts)\<rparr>) lat lon) lat lon = Inr df"
proof -
  from hourly_to_frame_shape [OF assms(1)] assms(2)
  have cols: "\<forall>kv \<in> set (columns df). \<exists>xs. snd kv = NumCol xs"
    and name: "index_name df = Some ''time''"
    by auto
  from assms(2,3) have ne: "ts \<noteq> []" by (auto simp: df_empty_def)
  have df: "df = \<lparr>index = Index (DtCol UTC ts), index_name = Some ''time'', columns = columns df\<rparr>"
    using assms(2) name by (cases df) simp
  have "load_cache (save_cache fs df lat lon) lat lon =
          Inr \<lparr>index = Index (DtCol UTC ts), index_name = Some ''time'', columns = columns df\<rparr>"
    by (rule load_save_utc [OF assms(2) name ne cols assms(6)]) (simp add: assms(4))
  with df have 1: "load_cache (save_cache fs df lat lon) lat lon = Inr df" by simp
  let ?naive = "df\<lparr>index := Index (DtCol Naive ts)\<rparr>"
  have "load_cache (save_cache fs ?naive lat lon) lat lon =
          Inr \<lparr>index = Index (DtCol UTC ts), index_name = Some ''time'', columns = columns ?naive\<rparr>"
    by (rule load_save_utc) (use name ne cols assms(6) in auto)
  with df have 2: "load_cache (save_cache fs ?naive lat lon) lat lon = Inr df" by simp
  from 1 2 show ?thesis by (intro conjI)
qed

theorem load_save_whole_seconds_witness:
  "hourly_to_frame iso_cell decimal (Js one_row_payload) = Inr one_row_frame \<and>
   index one_row_frame = Index (DtCol UTC [Some 1756944000000000000]) \<and>
   \<not> df_empty one_row_frame \<and>
   whole_seconds [Some 1756944000000000000] \<and>
   distinct (map fst (columns one_row_frame)) \<and>
   [] \<notin> fst ` set (columns one_row_frame) \<and>
   load_cache (save_cache Map.empty one_row_frame (390639 / 10000) (- 1085506 / 10000))
     (390639 / 10000) (- 1085506 / 10000) = Inr one_row_frame \<and>
   load_cache
     (save_cache Map.empty (one_row_frame\<lparr>index := Index (DtCol Naive [Some 1756944000000000000])\<rparr>)
        (390639 / 10000) (- 1085506 / 10000))
     (390639 / 10000) (- 1085506 / 10000) = Inr one_row_frame"
proof -
  have r: "hourly_to_frame iso_cell decimal (Js one_row_payload) = Inr one_row_frame"
    by (simp add: one_row_payload_def one_row_frame_def hourly_to_frame_def
      get_hourly_def DataFrame_def set_index_def sort_index_def to_datetime_utc_def to_numeric_def
      coerce_columns_def by_key_def nat_key_def iso_minute_def number_def digit_def
      days_from_civil_def days_in_month_def leap_year_def)
  have i: "index one_row_frame = Index (DtCol UTC [Some 1756944000000000000])"
    by (simp add: one_row_frame_def)
  have e: "\<not> df_empty one_row_frame"
    by (simp add: one_row_frame_def df_empty_def)
  have w: "whole_seconds [Some 1756944000000000000]"
    by (simp add: whole_seconds_def whole_second_def)
  have d: "distinct (map fst (columns one_row_frame))"
    by (simp add: one_row_frame_def)
  have n: "[] \<notin> fst ` set (columns one_row_frame)"
    by (simp add: one_row_frame_def)
  from load_save_whole_seconds [OF r i e w d n, of Map.empty "390639 / 10000" "- 1085506 / 10000"]
    r i e w d n
  show ?thesis by simp
qed

text \<open>
  Claim C9.  After \<open>save_cache\<close> of a series with no rows, \<open>load_cache\<close> for that location
  raises: \<^verbatim>\<open>ValueError\<close> when the file has no column \<open>time\<close>, as for \<^verbatim>\<open>pd.DataFrame()\<close>,
  and \<^verbatim>\<open>AttributeError\<close> when it has the column and no data row, the index read being
  no datetime index.  With no file for the location it returns the empty frame.
\<close>

theorem load_after_saving_empty:
  "(index_len (index df) = 0 \<longrightarrow>
      load_cache (save_cache fs df lat lon) lat lon = Inl ValueError \<or>
      load_cache (save_cache fs df lat lon) lat lon = Inl AttributeError) \<and>
   load_cache (save_cache fs empty_frame lat lon) lat lon = Inl ValueError \<and>
   (fs (cache_path lat lon) = None \<longrightarrow> load_cache fs lat lon = Inr empty_frame)"
proof (intro conjI impI)
  assume "index_len (index df) = 0"
  then have "csv_nrows (to_csv df) = 0"
    by (simp add: csv_nrows_def to_csv_def length_index_cells)
  then have "csv_nrows (read_header (to_csv df)) = 0"
    by (simp add: read_header_nrows)
  then show "load_cache (save_cache fs df lat lon) lat lon = Inl ValueError \<or>
      load_cache (save_cache fs df lat lon) lat lon = Inl AttributeError"
    by (cases "map_of (read_header (to_csv df)) ''time''")
      (simp_all add: load_cache_def save_cache_def read_csv_time_def index_tz_def)
next
  have "map_of (to_csv empty_frame) ''time'' = None"
    by (simp add: to_csv_def empty_frame_def)
  then have "map_of (read_header (to_csv empty_frame)) ''time'' = None"
    by (rule read_header_no_time)
  then show "load_cache (save_cache fs empty_frame lat lon) lat lon = Inl ValueError"
    by (simp add: load_cache_def save_cache_def read_csv_time_def)
next
  assume "fs (cache_path lat lon) = None"
  then show "load_cache fs lat lon = Inr empty_frame"
    by (simp add: load_cache_def)
qed

theorem load_after_saving_empty_witness:
  "index_len (index no_rows_frame) = 0 \<and>
   load_cache (save_cache Map.empty no_rows_frame 0 0) 0 0 = Inl AttributeError \<and>
   load_cache (save_cache Map.empty empty_frame 0 0) 0 0 = Inl ValueError \<and>
   (Map.empty :: files) (cache_path 0 0) = None \<and>
   load_cache Map.empty 0 0 = Inr empty_frame"
proof -
  have n: "index_len (index no_rows_frame) = 0" by (simp add: no_rows_frame_def)
  have "[] \<notin> fst ` set (to_csv no_rows_frame)"
    by (simp add: to_csv_def no_rows_frame_def)
  then have h: "read_header (to_csv no_rows_frame) = to_csv no_rows_frame"
    by (rule read_header_id)
  have a: "load_cache (save_cache Map.empty no_rows_frame 0 0) 0 0 \<noteq> Inl ValueError"
    by (simp add: load_cache_def save_cache_def read_csv_time_def h)
       (simp add: to_csv_def no_rows_frame_def csv_nrows_def index_tz_def)
  from load_after_saving_empty [of no_rows_frame Map.empty 0 0] n a show ?thesis by simp
qed

section \<open>Properties of the pipeline driver\<close>

text \<open>
  The driver of \<^verbatim>\<open>fetch.py\<close>, when the fetch fails: with a cached series that loads
  and is not empty it goes on with that series, shows the error and leaves the files
  alone; with no file it stops.
\<close>

lemma fetch_driver_fallback:
  assumes "load_cache fs lat lon = Inr df" and "\<not> df_empty df"
  shows "fetch_driver dt nm (Inl e) fs lat lon =
           \<lparr>outcome = Continue df, files_after = fs, shown = [e]\<rparr>"
  using assms by (simp add: fetch_driver_def fetch_and_save_def)

lemma fetch_driver_no_cache:
  assumes "fs (cache_path lat lon) = None"
  shows "fetch_driver dt nm (Inl e) fs lat lon = \<lparr>outcome = Stop, files_after = fs, shown = [e]\<rparr>"
  using assms
  by (simp add: fetch_driver_def fetch_and_save_def load_cache_def df_empty_def empty_frame_def)

text \<open>The driver of \<^verbatim>\<open>app_streamlit.py\<close> never falls back: a failed fetch always ends in
  an exception.\<close>

lemma app_driver_always_raises:
  "\<exists>e'. outcome (app_driver dt nm (Inl e) fs lat lon) = Raise e'"
  by (simp add: app_driver_def fetch_and_save_def call_bool_def split: sum.splits)

text \<open>
  Claim C1.  The fetch fails with \<^verbatim>\<open>TransportError\<close>; the cache of the location holds a
  series of one row, which \<open>load_cache\<close> returns.  The driver of \<^verbatim>\<open>fetch.py\<close> goes on
  with that series, shows the error once and writes nothing.  The driver of
  \<^verbatim>\<open>app_streamlit.py\<close> raises \<^verbatim>\<open>TypeError\<close> instead.
\<close>

theorem app_driver_fallback_raises:
  "load_cache cached_files (390639 / 10000) (- 1085506 / 10000) = Inr one_row_frame \<and>
   \<not> df_empty one_row_frame \<and>
   fetch_driver iso_cell decimal (Inl TransportError) cached_files (390639 / 10000) (- 1085506 / 10000) =
     \<lparr>outcome = Continue one_row_frame, files_after = cached_files, shown = [TransportError]\<rparr> \<and>
   app_driver iso_cell decimal (Inl TransportError) cached_files (390639 / 10000) (- 1085506 / 10000) =
     \<lparr>outcome = Raise TypeError, files_after = cached_files, shown = [TransportError]\<rparr>"
proof -
  have "load_cache cached_files (390639 / 10000) (- 1085506 / 10000) =
          Inr \<lparr>index = Index (DtCol UTC [Some 1756944000000000000]), index_name = Some ''time'',
               columns = columns one_row_frame\<rparr>"
    unfolding cached_files_def
    by (rule load_save_utc)
       (simp_all add: one_row_frame_def whole_seconds_def whole_second_def)
  then have l: "load_cache cached_files (390639 / 10000) (- 1085506 / 10000) = Inr one_row_frame"
    by (simp add: one_row_frame_def)
  have e: "\<not> df_empty one_row_frame"
    by (simp add: one_row_frame_def df_empty_def)
  from l e show ?thesis
    by (simp add: fetch_driver_def app_driver_def fetch_and_save_def call_bool_def)
qed

section \<open>Properties of the aggregator\<close>

text \<open>
  Counterexample to claim C5 as the specification states it.  One calendar day with
  the temperature rows 70, 72, 68 and the precipitation rows 0, 1, 0, and no column
  \<open>wind_speed_10m\<close>: the aggregation asks for that column and raises \<^verbatim>\<open>KeyError\<close>.
\<close>

theorem daily_summary_needs_wind:
  "daily_summary two_column_day = Inl KeyError"
  by (simp add: two_column_day_def daily_summary_def df_empty_def resample_days_def agg_spec_def
      day_of_def ns_per_day_def)

text \<open>
  Claim C5, as the code has it.  An empty frame gives the empty frame.  A frame indexed
  by three instants of one calendar day \<open>d\<close>, with the temperature rows 70, 72, 68, the
  precipitation rows 0, 1, 0 and a column \<open>wind_speed_10m\<close>, gives one row, for \<open>d\<close>,
  under the columns \<open>temperature_2m_mean\<close> = 70, \<open>temperature_2m_min\<close> = 68,
  \<open>temperature_2m_max\<close> = 72, \<open>precipitation_sum\<close> = 1 and \<open>wind_speed_10m_mean\<close>, in
  that order.  The names are \<open><measurement>_<statistic>\<close> and do not depend on the data.
\<close>

theorem daily_summary_single_day:
  "(df_empty df \<longrightarrow> daily_summary df = Inr empty_frame) \<and>
   (index df = Index (DtCol z [Some t1, Some t2, Some t3]) \<and>
    day_of t1 = d \<and> day_of t2 = d \<and> day_of t3 = d \<and>
    map_of (columns df) ''temperature_2m'' = Some (NumCol [Some 70, Some 72, Some 68]) \<and>
    map_of (columns df) ''precipitation'' = Some (NumCol [Some 0, Some 1, Some 0]) \<and>
    map_of (columns df) ''wind_speed_10m'' = Some (NumCol [w1, w2, w3]) \<longrightarrow>
    daily_summary df =
      Inr \<lparr>index = Index (DtCol z [Some (d * ns_per_day)]),
           index_name = index_name df,
           columns =
             [(''temperature_2m_mean'', NumCol [Some 70]),
              (''temperature_2m_min'', NumCol [Some 68]),
              (''temperature_2m_max'', NumCol [Some 72]),
              (''precipitation_sum'', NumCol [Some 1]),
              (''wind_speed_10m_mean'', NumCol [apply_stat Mean [w1, w2, w3]])]\<rparr>)"
proof (intro conjI impI)
  assume "df_empty df"
  then show "daily_summary df = Inr empty_frame" by (simp add: daily_summary_def)
next
  assume h: "index df = Index (DtCol z [Some t1, Some t2, Some t3]) \<and>
    day_of t1 = d \<and> day_of t2 = d \<and> day_of t3 = d \<and>
    map_of (columns df) ''temperature_2m'' = Some (NumCol [Some 70, Some 72, Some 68]) \<and>
    map_of (columns df) ''precipitation'' = Some (NumCol [Some 0, Some 1, Some 0]) \<and>
    map_of (columns df) ''wind_speed_10m'' = Some (NumCol [w1, w2, w3])"
  then have ne: "\<not> df_empty df"
    by (auto simp: df_empty_def)
  from h have days: "resample_days [Some t1, Some t2, Some t3] = Inr [d]"
    by (simp add: resample_days_def)
  have g: "in_day [Some t1, Some t2, Some t3] [a, b, c] d = [a, b, c]" for a b c :: "real option"
    using h by (simp add: in_day_def)
  from h ne days g show "daily_summary df = Inr \<lparr>index = Index (DtCol z [Some (d * ns_per_day)]),
           index_name = index_name df,
           columns =
             [(''temperature_2m_mean'', NumCol [Some 70]),
              (''temperature_2m_min'', NumCol [Some 68]),
              (''temperature_2m_max'', NumCol [Some 72]),
              (''precipitation_sum'', NumCol [Some 1]),
              (''wind_speed_10m_mean'', NumCol [apply_stat Mean [w1, w2, w3]])]\<rparr>"
    by (simp add: daily_summary_def agg_spec_def agg_column_def flat_name_def str_join_def
        strip_chars_def valid_def mean_def)
qed

theorem daily_summary_single_day_witness:
  "df_empty empty_frame \<and> daily_summary empty_frame = Inr empty_frame \<and>
   daily_summary sample_day =
      Inr \<lparr>index = Index (DtCol Naive [Some 0]),
           index_name = Some ''time'',
           columns =
             [(''temperature_2m_mean'', NumCol [Some 70]),
              (''temperature_2m_min'', NumCol [Some 68]),
              (''temperature_2m_max'', NumCol [Some 72]),
              (''precipitation_sum'', NumCol [Some 1]),
              (''wind_speed_10m_mean'', NumCol [Some (5 / 2)])]\<rparr>"
proof -
  have e: "df_empty empty_frame" by (simp add: df_empty_def empty_frame_def)
  have d: "day_of 0 = 0" "day_of 3600000000000 = 0" "day_of 7200000000000 = 0"
    by (simp_all add: day_of_def ns_per_day_def)
  from daily_summary_single_day [of empty_frame Naive 0 0 0 0 None None None] e
  have 1: "daily_summary empty_frame = Inr empty_frame" by simp
  from daily_summary_single_day [of sample_day Naive 0 3600000000000 7200000000000 0 "Some 2" None "Some 3"] d
  have 2: "daily_summary sample_day =
      Inr \<lparr>index = Index (DtCol Naive [Some 0]),
           index_name = Some ''time'',
           columns =
             [(''temperature_2m_mean'', NumCol [Some 70]),
              (''temperature_2m_min'', NumCol [Some 68]),
              (''temperature_2m_max'', NumCol [Some 72]),
              (''precipitation_sum'', NumCol [Some 1]),
              (''wind_speed_10m_mean'', NumCol [Some (5 / 2)])]\<rparr>"
    by (simp add: sample_day_def valid_def mean_def)
  from e 1 2 show ?thesis by simp
qed

section \<open>Properties of the display sanitizer\<close>

lemma strip_tz_DtCol: "strip_tz (DtCol z ts) = DtCol Naive ts"
  by (cases z) (simp_all add: strip_tz_def tz_localize_none_def)

lemma strip_tz_other: "strip_tz (ObjCol xs) = ObjCol xs" "strip_tz (NumCol ys) = NumCol ys"
  by (simp_all add: strip_tz_def)

lemma sanitized_naive: "strip_tz (promote td c) = DtCol z ts \<Longrightarrow> z = Naive"
  by (cases "promote td c") (auto simp: strip_tz_def tz_localize_none_def split: if_splits)

text \<open>
  Counterexample to claim C8 as the specification states it.  The index of this table
  is named \<open>time\<close> and so is one of its columns: \<^verbatim>\<open>reset_index\<close>, which no \<^verbatim>\<open>try\<close>
  guards, raises \<^verbatim>\<open>ValueError\<close>.
\<close>

theorem arrow_safe_df_raises:
  "arrow_safe_df iso_column clashing_table = Inl ValueError"
  by (simp add: arrow_safe_df_def clashing_table_def df_empty_def reset_index_def index_label_def)

text \<open>
  Claim C8, as the code has it.  \<open>arrow_safe_df\<close> returns a table, and does not raise,
  for every table that is empty or whose index can be inserted (no column bears the
  label the index would get).  An empty table is returned as it is.  Otherwise the index
  is the first column, and of the columns: one of timestamps comes out without timezone,
  its instants kept; one of text of which \<^verbatim>\<open>to_datetime\<close> parses at least 80% comes out
  as timestamps without timezone; one of text on which \<^verbatim>\<open>to_datetime\<close> raises stays
  text.  No column of the result has a timezone.
\<close>

theorem arrow_safe_df_sanitizes:
  assumes "df_empty df \<or> index_label df \<notin> set (map fst (columns df))"
  shows "\<exists>out. arrow_safe_df td df = Inr out \<and>
           (df_empty df \<longrightarrow> out = df) \<and>
           (\<not> df_empty df \<longrightarrow>
              map fst (columns out) = index_label df # map fst (columns df) \<and>
              (\<forall>kv \<in> set ((index_label df, index_column (index df)) # columns df).
                 (\<forall>z ts. snd kv = DtCol z ts \<longrightarrow> (fst kv, DtCol Naive ts) \<in> set (columns out)) \<and>
                 (\<forall>xs z ts. snd kv = ObjCol xs \<and> td xs = Inr (z, ts) \<and> ts \<noteq> [] \<and>
                      4 * length ts \<le> 5 * notna ts \<longrightarrow>
                    (fst kv, DtCol Naive ts) \<in> set (columns out)) \<and>
                 (\<forall>xs e. snd kv = ObjCol xs \<and> td xs = Inl e \<longrightarrow>
                    (fst kv, ObjCol xs) \<in> set (columns out))) \<and>
              (\<forall>kv \<in> set (columns out). \<forall>z ts. snd kv = DtCol z ts \<longrightarrow> z = Naive))"
proof (cases "df_empty df")
  case True
  then show ?thesis by (simp add: arrow_safe_df_def)
next
  case False
  let ?cols = "(index_label df, index_column (index df)) # columns df"
  let ?fr = "\<lparr>index = RangeIndex (index_len (index df)), index_name = None, columns = ?cols\<rparr>"
  let ?out = "?fr\<lparr>columns := map (\<lambda>kv. (fst kv, strip_tz (promote td (snd kv)))) ?cols\<rparr>"
  from False assms have r: "arrow_safe_df td df = Inr ?out"
    by (simp add: arrow_safe_df_def reset_index_def)
  have n: "map fst (columns ?out) = index_label df # map fst (columns df)"
    by (simp add: comp_def)
  have c: "(\<forall>z ts. snd kv = DtCol z ts \<longrightarrow> (fst kv, DtCol Naive ts) \<in> set (columns ?out)) \<and>
           (\<forall>xs z ts. snd kv = ObjCol xs \<and> td xs = Inr (z, ts) \<and> ts \<noteq> [] \<and>
                4 * length ts \<le> 5 * notna ts \<longrightarrow>
              (fst kv, DtCol Naive ts) \<in> set (columns ?out)) \<and>
           (\<forall>xs e. snd kv = ObjCol xs \<and> td xs = Inl e \<longrightarrow>
              (fst kv, ObjCol xs) \<in> set (columns ?out))"
    if kv: "kv \<in> set ?cols" for kv
  proof -
    from kv have "(\<lambda>kv. (fst kv, strip_tz (promote td (snd kv)))) kv
        \<in> (\<lambda>kv. (fst kv, strip_tz (promote td (snd kv)))) ` set ?cols"
      by (rule imageI)
    then have m: "(fst kv, strip_tz (promote td (snd kv))) \<in> set (columns ?out)"
      by simp
    have 1: "strip_tz (promote td (snd kv)) = DtCol Naive ts" if "snd kv = DtCol z ts" for z ts
      using that by (simp add: promote_def strip_tz_DtCol)
    have 2: "strip_tz (promote td (snd kv)) = DtCol Naive ts"
      if "snd kv = ObjCol xs" "td xs = Inr (z, ts)" "ts \<noteq> []" "4 * length ts \<le> 5 * notna ts"
      for xs z ts
    proof -
      from that(3) have "0 < length ts" by simp
      with that(4) have "1 \<le> notna ts" by arith
      moreover from that(4) have "4 * length ts div 5 \<le> notna ts" by arith
      ultimately have "max 1 (4 * length ts div 5) \<le> notna ts" by simp
      with that(1,2) show ?thesis by (simp add: promote_def strip_tz_DtCol)
    qed
    have 3: "strip_tz (promote td (snd kv)) = ObjCol xs"
      if "snd kv = ObjCol xs" "td xs = Inl e" for xs e
      using that by (simp add: promote_def strip_tz_other)
    show ?thesis
    proof (intro conjI allI impI)
      fix z ts
      assume "snd kv = DtCol z ts"
      from 1 [OF this] m show "(fst kv, DtCol Naive ts) \<in> set (columns ?out)"
        by (simp only:)
    next
      fix xs z ts
      assume "snd kv = ObjCol xs \<and> td xs = Inr (z, ts) \<and> ts \<noteq> [] \<and> 4 * length ts \<le> 5 * notna ts"
      then have "strip_tz (promote td (snd kv)) = DtCol Naive ts"
        using 2 by blast
      with m show "(fst kv, DtCol Naive ts) \<in> set (columns ?out)"
        by (simp only:)
    next
      fix xs e
      assume "snd kv = ObjCol xs \<and> td xs = Inl e"
      then have "strip_tz (promote td (snd kv)) = ObjCol xs"
        using 3 by blast
      with m show "(fst kv, ObjCol xs) \<in> set (columns ?out)"
        by (simp only:)
    qed
  qed
  have z: "\<forall>kv \<in> set (columns ?out). \<forall>z ts. snd kv = DtCol z ts \<longrightarrow> z = Naive"
    by (auto dest: sanitized_naive)
  have "arrow_safe_df td df = Inr ?out \<and>
           (df_empty df \<longrightarrow> ?out = df) \<and>
           (\<not> df_empty df \<longrightarrow>
              map fst (columns ?out) = index_label df # map fst (columns df) \<and>
              (\<forall>kv \<in> set ((index_label df, index_column (index df)) # columns df).
                 (\<forall>z ts. snd kv = DtCol z ts \<longrightarrow> (fst kv, DtCol Naive ts) \<in> set (columns ?out)) \<and>
                 (\<forall>xs z ts. snd kv = ObjCol xs \<and> td xs = Inr (z, ts) \<and> ts \<noteq> [] \<and>
                      4 * length ts \<le> 5 * notna ts \<longrightarrow>
                    (fst kv, DtCol Naive ts) \<in> set (columns ?out)) \<and>
                 (\<forall>xs e. snd kv = ObjCol xs \<and> td xs = Inl e \<longrightarrow>
                    (fst kv, ObjCol xs) \<in> set (columns ?out))) \<and>
              (\<forall>kv \<in> set (columns ?out). \<forall>z ts. snd kv = DtCol z ts \<longrightarrow> z = Naive))"
  proof (intro conjI impI)
    show "arrow_safe_df td df = Inr ?out" by (rule r)
  next
    assume "df_empty df"
    with False show "?out = df" by simp
  next
    show "map fst (columns ?out) = index_label df # map fst (columns df)" by (rule n)
  next
    show "\<forall>kv \<in> set ((index_label df, index_column (index df)) # columns df).
                 (\<forall>z ts. snd kv = DtCol z ts \<longrightarrow> (fst kv, DtCol Naive ts) \<in> set (columns ?out)) \<and>
                 (\<forall>xs z ts. snd kv = ObjCol xs \<and> td xs = Inr (z, ts) \<and> ts \<noteq> [] \<and>
                      4 * length ts \<le> 5 * notna ts \<longrightarrow>
                    (fst kv, DtCol Naive ts) \<in> set (columns ?out)) \<and>
                 (\<forall>xs e. snd kv = ObjCol xs \<and> td xs = Inl e \<longrightarrow>
                    (fst kv, ObjCol xs) \<in> set (columns ?out))"
      by (rule ballI) (rule c)
  next
    show "\<forall>kv \<in> set (columns ?out). \<forall>z ts. snd kv = DtCol z ts \<longrightarrow> z = Naive" by (rule z)
  qed
  then show ?thesis by (rule exI [where x = ?out])
qed

theorem arrow_safe_df_sanitizes_witness:
  "\<not> df_empty mixed_table \<and>
   index_label mixed_table \<notin> set (map fst (columns mixed_table)) \<and>
   arrow_safe_df iso_column mixed_table =
     Inr \<lparr>index = RangeIndex 5, index_name = None,
          columns =
            [(''time'', DtCol Naive [Some 1756944000000000000, Some 1756947600000000000, None,
                                    Some 1756951200000000000, Some 1756954800000000000]),
             (''seen'', DtCol Naive [Some 1756944000000000000, Some 1756947600000000000, None,
                                    Some 1756951200000000000, Some 1756954800000000000]),
             (''temperature_2m'', NumCol [Some 70, Some 71, None, Some 72, Some 73])]\<rparr>"
proof -
  have e: "\<not> df_empty mixed_table"
    by (simp add: mixed_table_def df_empty_def)
  have l: "index_label mixed_table \<notin> set (map fst (columns mixed_table))"
    by (simp add: mixed_table_def index_label_def)
  from arrow_safe_df_sanitizes [of mixed_table iso_column] l
  obtain out where "arrow_safe_df iso_column mixed_table = Inr out" by blast
  moreover have "arrow_safe_df iso_column mixed_table =
     Inr \<lparr>index = RangeIndex 5, index_name = None,
          columns =
            [(''time'', DtCol Naive [Some 1756944000000000000, Some 1756947600000000000, None,
                                    Some 1756951200000000000, Some 1756954800000000000]),
             (''seen'', DtCol Naive [Some 1756944000000000000, Some 1756947600000000000, None,
                                    Some 1756951200000000000, Some 1756954800000000000]),
             (''temperature_2m'', NumCol [Some 70, Some 71, None, Some 72, Some 73])]\<rparr>"
    by (simp add: arrow_safe_df_def mixed_table_def df_empty_def reset_index_def index_label_def
        promote_def strip_tz_def tz_localize_none_def iso_column_def notna_def
        iso_minute_def number_def digit_def days_from_civil_def days_in_month_def leap_year_def)
  ultimately show ?thesis using e l by simp
qed

end
